theory Spec2Isabelle
  imports Main "HOL-Library.Char_ord" "HOL-Library.List_Lexorder"
begin

section \<open>JavaScript primitives used by configuration.ts\<close>

text \<open>
  A value of TypeScript type \<open>string | undefined\<close> is a \<open>string option\<close>, with \<open>None\<close>
  for \<open>undefined\<close>. Strings are lists of 8-bit characters. In a condition, \<open>undefined\<close>
  and the empty string are the two falsy values of that type.
\<close>

definition truthy :: "string option \<Rightarrow> bool" where
  "truthy v = (case v of None \<Rightarrow> False | Some s \<Rightarrow> s \<noteq> [])"

text \<open>\<open>a || b\<close> where \<open>a\<close> is \<open>string | undefined\<close> and \<open>b\<close> is a string.\<close>

definition js_or :: "string option \<Rightarrow> string \<Rightarrow> string" where
  "js_or a b = (case a of None \<Rightarrow> b | Some s \<Rightarrow> if s = [] then b else s)"

text \<open>\<open>a || b\<close> where both sides are \<open>string | undefined\<close>.\<close>

definition js_or_undefined :: "string option \<Rightarrow> string option \<Rightarrow> string option" where
  "js_or_undefined a b = (if truthy a then a else b)"

text \<open>String concatenation with a \<open>string | undefined\<close> operand prints \<open>undefined\<close>.\<close>

definition js_string :: "string option \<Rightarrow> string" where
  "js_string v = (case v of None \<Rightarrow> ''undefined'' | Some s \<Rightarrow> s)"

text \<open>\<open>Array.prototype.join\<close> on an array of strings.\<close>

fun join_js :: "string list \<Rightarrow> string \<Rightarrow> string" where
  "join_js [] sep = []"
| "join_js [x] sep = x"
| "join_js (x # y # ys) sep = x @ sep @ join_js (y # ys) sep"

text \<open>
  \<open>String.prototype.split\<close> with a one-character separator. The empty string splits into
  the one-element array holding the empty string, never into the empty array.
\<close>

fun split_js :: "string \<Rightarrow> char \<Rightarrow> string list" where
  "split_js [] c = [[]]"
| "split_js (x # xs) c =
     (if x = c then [] # split_js xs c
      else (case split_js xs c of [] \<Rightarrow> [[x]] | h # t \<Rightarrow> (x # h) # t))"

text \<open>\<open>String.prototype.slice(a, b)\<close> for \<open>0 \<le> a \<le> b\<close>.\<close>

definition slice_js :: "string \<Rightarrow> nat \<Rightarrow> nat \<Rightarrow> string" where
  "slice_js s a b = take (b - a) (drop a s)"

text \<open>
  \<open>Array.prototype.sort()\<close> without a comparator orders strings by their code units, which
  is the lexicographic order of character lists.
\<close>

definition sort_js :: "string list \<Rightarrow> string list" where
  "sort_js xs = sort xs"

text \<open>
  \<open>items.filter((elem, index, self) => index === self.indexOf(elem))\<close>: an element is kept
  at its first occurrence only.
\<close>

fun indexOf :: "string list \<Rightarrow> string \<Rightarrow> nat option" where
  "indexOf [] e = None"
| "indexOf (x # xs) e = (if x = e then Some 0 else map_option Suc (indexOf xs e))"

definition filter_first_occurrence :: "string list \<Rightarrow> string list" where
  "filter_first_occurrence self =
     map snd (filter (\<lambda>(index, elem). Some index = indexOf self elem)
                     (zip [0 ..< length self] self))"

section \<open>The regular expression of the launch-configuration decoder\<close>

text \<open>
  \<open>/(.*)\>(.*)\((.*)\)/mg\<close>, run once by \<open>exec\<close> from \<open>lastIndex = 0\<close> (the literal makes
  a new RegExp object at each call). A dot matches any character but a line terminator;
  the flag \<open>m\<close> only concerns anchors, which the pattern has none of. A star is greedy:
  it tries the longest run first and gives characters back one by one.
\<close>

definition lineTerminator :: "char \<Rightarrow> bool" where
  "lineTerminator c = (c = CHR 0x0A \<or> c = CHR 0x0D)"

text \<open>
  Every way \<open>(.*)\<close> can match at the head of a string, in the order the backtracking
  matcher tries them: the captured text and what is left after it.
\<close>

fun dotStar :: "string \<Rightarrow> (string \<times> string) list" where
  "dotStar [] = [([], [])]"
| "dotStar (c # cs) =
     (if lineTerminator c then [([], c # cs)]
      else map (\<lambda>(m, r). (c # m, r)) (dotStar cs) @ [([], c # cs)])"

text \<open>A literal character of the pattern.\<close>

fun literal :: "char \<Rightarrow> string \<Rightarrow> string option" where
  "literal c [] = None"
| "literal c (x # xs) = (if x = c then Some xs else None)"

text \<open>The first alternative, in order, for which the rest of the pattern matches.\<close>

fun first_match :: "('a \<Rightarrow> 'b option) \<Rightarrow> 'a list \<Rightarrow> 'b option" where
  "first_match f [] = None"
| "first_match f (x # xs) = (case f x of Some y \<Rightarrow> Some y | None \<Rightarrow> first_match f xs)"

text \<open>\<open>(.*)\<close> followed by the literal \<open>c\<close> and then by the continuation \<open>k\<close>.\<close>

definition group_then :: "char \<Rightarrow> (string \<Rightarrow> string \<Rightarrow> 'b option) \<Rightarrow> string \<Rightarrow> 'b option" where
  "group_then c k s =
     first_match (\<lambda>(g, r). case literal c r of None \<Rightarrow> None | Some r' \<Rightarrow> k g r') (dotStar s)"

text \<open>The whole pattern, anchored at the head of the string: the three captures.\<close>

definition match_here :: "string \<Rightarrow> (string \<times> string \<times> string) option" where
  "match_here s =
     group_then (CHR ''>'') (\<lambda>g1 r1.
       group_then (CHR ''('') (\<lambda>g2 r2.
         group_then (CHR '')'') (\<lambda>g3 r3. Some (g1, g2, g3)) r2) r1) s"

text \<open>\<open>exec\<close> tries the start positions from left to right, the end of the string included.\<close>

fun regexp_exec :: "string \<Rightarrow> (string \<times> string \<times> string) option" where
  "regexp_exec [] = match_here []"
| "regexp_exec (c # cs) =
     (case match_here (c # cs) of Some m \<Rightarrow> Some m | None \<Rightarrow> regexp_exec cs)"

section \<open>Node's path module (POSIX flavour)\<close>

text \<open>
  The paths of the specification are POSIX paths, so \<open>path\<close> is \<open>path.posix\<close>. The
  functions below follow Node's documented behaviour: \<open>normalize\<close> drops empty and \<open>.\<close>
  segments, resolves \<open>..\<close> against the segment before it, keeps a trailing slash and
  never returns the empty string; \<open>join\<close> joins the non-empty arguments with a slash and
  normalizes; \<open>parse\<close> scans from the right as Node's loop does.
\<close>

definition isAbsolute :: "string \<Rightarrow> bool" where
  "isAbsolute p = (case p of [] \<Rightarrow> False | c # cs \<Rightarrow> c = CHR ''/'')"

fun normalizeSegments :: "bool \<Rightarrow> string list \<Rightarrow> string list \<Rightarrow> string list" where
  "normalizeSegments allowAboveRoot acc [] = rev acc"
| "normalizeSegments allowAboveRoot acc (seg # segs) =
     (if seg = [] \<or> seg = ''.'' then normalizeSegments allowAboveRoot acc segs
      else if seg = ''..'' then
        (case acc of
           [] \<Rightarrow> normalizeSegments allowAboveRoot (if allowAboveRoot then [''..''] else []) segs
         | a # as \<Rightarrow>
             if a = ''..''
             then normalizeSegments allowAboveRoot (if allowAboveRoot then ''..'' # acc else acc) segs
             else normalizeSegments allowAboveRoot as segs)
      else normalizeSegments allowAboveRoot (seg # acc) segs)"

definition normalize :: "string \<Rightarrow> string" where
  "normalize p =
     (if p = [] then ''.''
      else
        let isAbs = (hd p = CHR ''/'');
            trailingSeparator = (last p = CHR ''/'');
            res = join_js (normalizeSegments (\<not> isAbs) [] (split_js p (CHR ''/''))) ''/''
        in if res = [] then (if isAbs then ''/'' else if trailingSeparator then ''./'' else ''.'')
           else (if isAbs then ''/'' else []) @ res @ (if trailingSeparator then ''/'' else []))"

definition path_join :: "string list \<Rightarrow> string" where
  "path_join parts =
     (let joined = filter (\<lambda>a. a \<noteq> []) parts
      in if joined = [] then ''.'' else normalize (join_js joined ''/''))"

record ParsedPath =
  pp_root :: string
  pp_dir :: string
  pp_base :: string
  pp_ext :: string
  pp_name :: string

record parse_scan =
  startDot :: int
  startPart :: nat
  endIdx :: int
  matchedSlash :: bool
  preDotState :: int

fun parse_loop :: "string \<Rightarrow> nat \<Rightarrow> nat \<Rightarrow> parse_scan \<Rightarrow> parse_scan" where
  "parse_loop path start 0 st = st"
| "parse_loop path start (Suc n) st =
     (let i = start + n; code = path ! i in
      if code = CHR ''/'' then
        (if \<not> matchedSlash st then st\<lparr>startPart := i + 1\<rparr>
         else parse_loop path start n st)
      else
        (let st1 = (if endIdx st = - 1
                    then st\<lparr>matchedSlash := False, endIdx := int i + 1\<rparr> else st);
             st2 = (if code = CHR ''.'' then
                      (if startDot st1 = - 1 then st1\<lparr>startDot := int i\<rparr>
                       else if preDotState st1 \<noteq> 1 then st1\<lparr>preDotState := 1\<rparr>
                       else st1)
                    else if startDot st1 \<noteq> - 1 then st1\<lparr>preDotState := - 1\<rparr>
                    else st1)
         in parse_loop path start n st2))"

definition path_parse :: "string \<Rightarrow> ParsedPath" where
  "path_parse path =
     (if path = [] then
        \<lparr>pp_root = [], pp_dir = [], pp_base = [], pp_ext = [], pp_name = []\<rparr>
      else
        let isAbs = (hd path = CHR ''/'');
            start = (if isAbs then 1 else 0);
            st = parse_loop path start (length path - start)
                   \<lparr>startDot = - 1, startPart = 0, endIdx = - 1,
                    matchedSlash = True, preDotState = 0\<rparr>;
            e = nat (endIdx st);
            b = (if startPart st = 0 \<and> isAbs then 1 else startPart st);
            plain = (startDot st = - 1 \<or> preDotState st = 0 \<or>
                     (preDotState st = 1 \<and> startDot st = endIdx st - 1 \<and>
                      startDot st = int (startPart st) + 1))
        in \<lparr>pp_root = (if isAbs then ''/'' else []),
            pp_dir = (if 0 < startPart st then slice_js path 0 (startPart st - 1)
                      else if isAbs then ''/'' else []),
            pp_base = (if endIdx st = - 1 then [] else slice_js path b e),
            pp_ext = (if endIdx st = - 1 \<or> plain then []
                      else slice_js path (nat (startDot st)) e),
            pp_name = (if endIdx st = - 1 then []
                       else if plain then slice_js path b e
                       else slice_js path b (nat (startDot st)))\<rparr>)"

section \<open>Data model\<close>

text \<open>
  \<open>MakeConfiguration\<close>, one entry of \<open>.vscode/make_configurations.json\<close>. The optional
  field \<open>buildLog\<close> of the interface is \<open>cfgBuildLog\<close> here, since the module variable
  \<open>buildLog\<close> keeps its name in the state below.
\<close>

record MakeConfiguration =
  name :: string
  commandName :: "string option"
  commandArgs :: "string list option"
  cfgBuildLog :: "string option"

record LaunchConfiguration =
  binary :: string
  cwd :: string
  args :: "string list"

text \<open>
  A launch configuration held in a variable is a JavaScript object: \<open>===\<close> and \<open>!==\<close>
  compare the identity of two objects, not their fields. An object is its allocation
  number together with its (never mutated) fields.
\<close>

datatype LaunchObject = LaunchObject nat LaunchConfiguration

fun objectRef :: "LaunchObject \<Rightarrow> nat" where
  "objectRef (LaunchObject r c) = r"

fun objectFields :: "LaunchObject \<Rightarrow> LaunchConfiguration" where
  "objectFields (LaunchObject r c) = c"

text \<open>\<open>a !== b\<close> for two values of type object-or-undefined.\<close>

fun strict_neq_object :: "LaunchObject option \<Rightarrow> LaunchObject option \<Rightarrow> bool" where
  "strict_neq_object None None = False"
| "strict_neq_object (Some a) (Some b) = (objectRef a \<noteq> objectRef b)"
| "strict_neq_object a b = True"

text \<open>
  The settings store, namespace \<open>Makefile\<close>: the content behind
  \<open>vscode.workspace.getConfiguration("Makefile")\<close>. The store holds data, not objects of
  the program: reading an object-valued key hands out a new object at each \<open>get\<close>.
\<close>

record Settings =
  Makefile_buildConfiguration :: "string option"
  Makefile_buildTarget :: "string option"
  Makefile_launchConfiguration :: "LaunchConfiguration option"
  Makefile_buildLog :: "string option"
  Makefile_extensionLog :: "string option"
  Makefile_makePath :: "string option"
  Makefile_loggingLevel :: "string option"

text \<open>
  What the module reads from outside and never writes: the workspace, the file system,
  and the collaborators whose code is in other modules (\<open>util\<close>, \<open>parser\<close>) or in the
  runtime (\<open>JSON.parse\<close>, where \<open>None\<close> stands for the exception it throws).
\<close>

record Env =
  rootPath :: "string option"
  workspaceFolders :: bool
  fileSystem :: "string \<Rightarrow> string option"
  jsonParse :: "string \<Rightarrow> MakeConfiguration list option"
  makeRelPath :: "string \<Rightarrow> string \<Rightarrow> string"
  makeFullPath :: "string \<Rightarrow> string \<Rightarrow> string"
  parseTargets :: "string \<Rightarrow> string list"
  parseForLaunchConfiguration :: "string \<Rightarrow> LaunchConfiguration list"

text \<open>\<open>util.readFile\<close> and \<open>util.checkFileExistsSync\<close> on that file system.\<close>

definition readFile :: "Env \<Rightarrow> string \<Rightarrow> string option" where
  "readFile env p = fileSystem env p"

definition checkFileExistsSync :: "Env \<Rightarrow> string \<Rightarrow> bool" where
  "checkFileExistsSync env p = (fileSystem env p \<noteq> None)"

text \<open>
  The module's variables, followed by what its calls leave behind in the collaborators:
  the settings store, the number of objects allocated so far, the lines given to
  \<open>logger.message\<close>, the texts given to \<open>vscode.window.showErrorMessage\<close>, the number of
  calls of \<open>make.parseBuildOrDryRun\<close>, and the last texts given to the three setters of
  the status bar. The string variables declared without a value are assigned before
  they are read.
\<close>

record State =
  currentMakeConfiguration :: string
  makePath :: "string option"
  buildLog :: "string option"
  loggingLevel :: "string option"
  extensionLog :: "string option"
  currentLaunchConfiguration :: "LaunchObject option"
  configurationCommandName :: string
  configurationCommandArgs :: "string list"
  configurationBuildLog :: "string option"
  makeConfigurations :: "MakeConfiguration list"
  currentTarget :: "string option"
  ignoreSettingsChanged :: bool
  settings :: Settings
  nextRef :: nat
  logged :: "string list"
  errorMessages :: "string list"
  parseRequests :: nat
  statusConfiguration :: "string option"
  statusTarget :: "string option"
  statusLaunchConfiguration :: "string option"

definition logger_message :: "string \<Rightarrow> State \<Rightarrow> State" where
  "logger_message m s = s\<lparr>logged := logged s @ [m]\<rparr>"

text \<open>\<open>if (c) { statement }\<close> with no else branch, for a statement that updates the state.\<close>

definition if_then :: "bool \<Rightarrow> (State \<Rightarrow> State) \<Rightarrow> State \<Rightarrow> State" where
  "if_then c statement s = (if c then statement s else s)"

definition showErrorMessage :: "string \<Rightarrow> State \<Rightarrow> State" where
  "showErrorMessage m s = s\<lparr>errorMessages := errorMessages s @ [m]\<rparr>"

definition parseBuildOrDryRun :: "State \<Rightarrow> State" where
  "parseBuildOrDryRun s = s\<lparr>parseRequests := Suc (parseRequests s)\<rparr>"

text \<open>\<open>workspaceConfiguration.get("launchConfiguration")\<close>: a new object when the key is set.\<close>

definition get_launchConfiguration :: "State \<Rightarrow> LaunchObject option \<times> State" where
  "get_launchConfiguration s =
     (case Makefile_launchConfiguration (settings s) of
        None \<Rightarrow> (None, s)
      | Some c \<Rightarrow> (Some (LaunchObject (nextRef s) c), s\<lparr>nextRef := Suc (nextRef s)\<rparr>))"

section \<open>Launch-configuration codec\<close>

definition launchConfigurationToString :: "Env \<Rightarrow> LaunchConfiguration \<Rightarrow> string" where
  "launchConfigurationToString env configuration =
     cwd configuration @ ''>'' @ makeRelPath env (binary configuration) (cwd configuration)
       @ ''('' @ join_js (args configuration) '','' @ '')''"

definition stringToLaunchConfiguration :: "Env \<Rightarrow> string \<Rightarrow> LaunchConfiguration option" where
  "stringToLaunchConfiguration env str =
     (case regexp_exec str of
        Some (m1, m2, m3) \<Rightarrow>
          Some \<lparr>binary = makeFullPath env m2 m1, cwd = m1, args = split_js m3 (CHR '','')\<rparr>
      | None \<Rightarrow> None)"

text \<open>
  Text that the encoded form carries unchanged: none of the four characters the format
  uses as separators, and no line terminator, at which the dot of the pattern stops.
\<close>

definition plainText :: "string \<Rightarrow> bool" where
  "plainText t =
     (\<forall>c \<in> set t. c \<noteq> CHR ''>'' \<and> c \<noteq> CHR ''('' \<and> c \<noteq> CHR '')'' \<and> c \<noteq> CHR '',''
                  \<and> \<not> lineTerminator c)"

text \<open>
  The two path helpers of the codec, \<open>util.makeRelPath\<close> and \<open>util.makeFullPath\<close>, are in
  a module that is not among the sources, and the codec takes them from the
  environment. Where a concrete helper is needed, the two definitions below are used.
\<close>

fun dropCommonPrefix :: "string list \<Rightarrow> string list \<Rightarrow> string list \<times> string list" where
  "dropCommonPrefix (x # xs) (y # ys) =
     (if x = y then dropCommonPrefix xs ys else (x # xs, y # ys))"
| "dropCommonPrefix xs ys = (xs, ys)"

text \<open>
  Modelled from the spec: \<open>util.makeRelPath\<close>, which is missing from the sources; the
  specification gives the encoded binary as \<open>pathRelativeTo(binary, cwd)\<close>. The segments
  the two normalized paths share at their head are dropped, and one \<open>..\<close> is written for
  each segment of \<open>cwd\<close> that is left.
\<close>

definition pathRelativeTo :: "string \<Rightarrow> string \<Rightarrow> string" where
  "pathRelativeTo fullPath curPath =
     (let rest = dropCommonPrefix
                   (filter (\<lambda>seg. seg \<noteq> []) (split_js (normalize curPath) (CHR ''/'')))
                   (filter (\<lambda>seg. seg \<noteq> []) (split_js (normalize fullPath) (CHR ''/'')))
      in join_js (replicate (length (fst rest)) ''..'' @ snd rest) ''/'')"

text \<open>
  Modelled from the spec: \<open>util.makeFullPath\<close>, which is missing from the sources; the
  specification says that decoding resolves the binary to an absolute path by joining
  the relative form against \<open>cwd\<close>.
\<close>

definition joinAgainst :: "string \<Rightarrow> string \<Rightarrow> string" where
  "joinAgainst relPath curPath = path_join [curPath, relPath]"

section \<open>Reading the settings\<close>

definition readCurrentMakeConfiguration :: "State \<Rightarrow> State" where
  "readCurrentMakeConfiguration s =
     (let buildConfiguration = Makefile_buildConfiguration (settings s);
          s1 = (if \<not> truthy buildConfiguration
                then (logger_message ''No current configuration is defined in the settings file'' s)
                       \<lparr>currentMakeConfiguration := ''Default''\<rparr>
                else s\<lparr>currentMakeConfiguration := the buildConfiguration\<rparr>)
      in s1\<lparr>statusConfiguration := Some (currentMakeConfiguration s1)\<rparr>)"

definition readMakePath :: "State \<Rightarrow> State" where
  "readMakePath s =
     (let s1 = s\<lparr>makePath := Makefile_makePath (settings s)\<rparr>
      in if_then (\<not> truthy (makePath s1))
           (logger_message ''No path to the make tool is defined in the settings file'') s1)"

definition readBuildLog :: "Env \<Rightarrow> State \<Rightarrow> State" where
  "readBuildLog env s =
     (let s1 = s\<lparr>buildLog := Makefile_buildLog (settings s)\<rparr>
      in if truthy (buildLog s1) then
           (let s2 = logger_message (''Found build log path setting \"'' @ the (buildLog s1) @ ''\"'') s1;
                s3 = (if \<not> isAbsolute (the (buildLog s2)) then
                        (let resolved = path_join [js_or (rootPath env) [], the (buildLog s2)]
                         in logger_message (''Resolving build log path to  \"'' @ resolved @ ''\"'')
                              (s2\<lparr>buildLog := Some resolved\<rparr>))
                      else s2)
            in if_then (\<not> checkFileExistsSync env (the (buildLog s3)))
                 (logger_message ''Build log not found. Remove the build log setting or provide a build log file on disk at the given location.'') s3)
         else s1)"

definition readLoggingLevel :: "State \<Rightarrow> State" where
  "readLoggingLevel s =
     (let s1 = s\<lparr>loggingLevel := Makefile_loggingLevel (settings s)\<rparr>
      in if \<not> truthy (loggingLevel s1) then s1\<lparr>loggingLevel := Some ''Normal''\<rparr> else s1)"

definition readExtensionLog :: "Env \<Rightarrow> State \<Rightarrow> State" where
  "readExtensionLog env s =
     (let s1 = s\<lparr>extensionLog := Makefile_extensionLog (settings s)\<rparr>
      in if truthy (extensionLog s1) then
           (let s2 = logger_message (''Found extension log path setting \"'' @ the (extensionLog s1) @ ''\"'') s1
            in if \<not> isAbsolute (the (extensionLog s2)) then
                 (let resolved = path_join [js_or (rootPath env) [], the (extensionLog s2)]
                  in logger_message (''Resolving extension log path to \"'' @ resolved @ ''\"'')
                       (s2\<lparr>extensionLog := Some resolved\<rparr>))
               else s2)
         else s1)"

definition readCurrentLaunchConfiguration :: "Env \<Rightarrow> State \<Rightarrow> State" where
  "readCurrentLaunchConfiguration env s =
     (let (v, s1) = get_launchConfiguration s;
          s2 = s1\<lparr>currentLaunchConfiguration := v\<rparr>
      in case v of
           Some obj \<Rightarrow>
             s2\<lparr>statusLaunchConfiguration :=
                  Some (launchConfigurationToString env (objectFields obj))\<rparr>
         | None \<Rightarrow> s2\<lparr>statusLaunchConfiguration := Some ''No launch configuration set''\<rparr>)"

definition readCurrentTarget :: "State \<Rightarrow> State" where
  "readCurrentTarget s =
     (let buildTarget = Makefile_buildTarget (settings s)
      in if \<not> truthy buildTarget then
           (logger_message ''No target defined in the settings file'' s)
             \<lparr>statusTarget := Some ''Default'', currentTarget := Some []\<rparr>
         else s\<lparr>currentTarget := buildTarget, statusTarget := buildTarget\<rparr>)"

section \<open>Configuration store\<close>

text \<open>
  \<open>configurationsJsonPath\<close> is computed once, by concatenation with
  \<open>vscode.workspace.rootPath\<close>, which prints \<open>undefined\<close> when there is no root.
\<close>

definition configurationsJsonPath :: "Env \<Rightarrow> string" where
  "configurationsJsonPath env = js_string (rootPath env) @ ''/.vscode/make_configurations.json''"

definition readMakeConfigurations :: "Env \<Rightarrow> State \<Rightarrow> State" where
  "readMakeConfigurations env s =
     (if checkFileExistsSync env (configurationsJsonPath env) then
        (let s1 = logger_message ''Reading configurations from file /.vscode/make_configurations.json'' s;
             jsonConfigurationsContent = the (fileSystem env (configurationsJsonPath env))
         in case jsonParse env jsonConfigurationsContent of
              Some configurations \<Rightarrow> s1\<lparr>makeConfigurations := configurations\<rparr>
            | None \<Rightarrow> showErrorMessage ''Failed to parse make_configurations.json'' s1)
      else logger_message ''Configurations file /.vscode/make_configurations.json not found'' s)"

section \<open>Resolution of the command and of the build log\<close>

text \<open>
  \<open>makeConfigurations.find(k => { if (k.name === configuration) return {...} })\<close>: the first
  record whose name is the configuration asked for.
\<close>

definition findConfiguration :: "string option \<Rightarrow> MakeConfiguration list \<Rightarrow> MakeConfiguration option" where
  "findConfiguration configuration configurations =
     find (\<lambda>k. Some (name k) = configuration) configurations"

definition getCommandForConfiguration :: "Env \<Rightarrow> string option \<Rightarrow> State \<Rightarrow> State" where
  "getCommandForConfiguration env configuration s =
     (let makeConfiguration = findConfiguration configuration (makeConfigurations s);
          recordCommandName = (case makeConfiguration of None \<Rightarrow> None | Some k \<Rightarrow> commandName k);
          makeParsedPathSettings =
            (if truthy (makePath s) then Some (path_parse (the (makePath s))) else None);
          makeParsedPathConfigurations =
            (if truthy recordCommandName then Some (path_parse (the recordCommandName)) else None);
          commandArgs' =
            (case makeConfiguration of
               None \<Rightarrow> []
             | Some k \<Rightarrow> (case commandArgs k of None \<Rightarrow> [] | Some a \<Rightarrow> a));
          commandName' =
            js_or (map_option pp_name makeParsedPathConfigurations)
              (js_or (map_option pp_name makeParsedPathSettings) ''make'');
          configurationCommandPath =
            js_or (map_option pp_dir makeParsedPathConfigurations)
              (js_or (map_option pp_dir makeParsedPathSettings) []);
          s1 = s\<lparr>configurationCommandArgs := commandArgs',
                 configurationCommandName := path_join [configurationCommandPath, commandName']\<rparr>;
          s2 = if_then (truthy recordCommandName)
                 (logger_message (''Found command '' @ [CHR 0x27] @ configurationCommandName s1 @ '' ''
                    @ join_js (configurationCommandArgs s1) '' '' @ [CHR 0x27]
                    @ '' for configuration '' @ js_string configuration)) s1;
          buildLog' = configurationBuildLog s2;
          buildLogContent = (if truthy buildLog' then readFile env (the buildLog') else None)
      in if \<not> truthy buildLogContent then
           (let s3 = if_then
                       ((makeParsedPathSettings = None \<or> pp_name (the makeParsedPathSettings) = [])
                        \<and> (makeParsedPathConfigurations = None
                             \<or> pp_name (the makeParsedPathConfigurations) = []))
                       (logger_message ''Could not find any make tool file name in make_configurations.json, nor in settings. Assuming make.'') s2;
                s4 = if_then
                       ((makeParsedPathSettings = None \<or> pp_dir (the makeParsedPathSettings) = [])
                        \<and> (makeParsedPathConfigurations = None
                             \<or> pp_dir (the makeParsedPathConfigurations) = []))
                       (logger_message ''For the extension to work, make must be on the path.'') s3
            in if_then (makeParsedPathSettings = None \<and> makeParsedPathConfigurations = None)
                 (logger_message ''It is recommended to define the full path of the make tool in settings (via Makefile.makePath) OR define commandName/commandArgs in make_configurations.json.'') s4)
         else s2)"

definition getBuildLogForConfiguration :: "Env \<Rightarrow> string option \<Rightarrow> State \<Rightarrow> State" where
  "getBuildLogForConfiguration env configuration s =
     (let makeConfiguration = findConfiguration configuration (makeConfigurations s);
          s1 = s\<lparr>configurationBuildLog :=
                   (case makeConfiguration of None \<Rightarrow> None | Some k \<Rightarrow> cfgBuildLog k)\<rparr>
      in if truthy (configurationBuildLog s1) then
           (let s2 = logger_message (''Found build log path setting \"'' @ the (configurationBuildLog s1)
                        @ ''\" defined for configuration \"'' @ js_string configuration) s1;
                s3 = (if \<not> isAbsolute (the (configurationBuildLog s2)) then
                        (let resolved = path_join [js_or (rootPath env) [], the (configurationBuildLog s2)]
                         in logger_message (''Resolving build log path to \"'' @ resolved @ ''\"'')
                              (s2\<lparr>configurationBuildLog := Some resolved\<rparr>))
                      else s2)
            in if_then (\<not> checkFileExistsSync env (the (configurationBuildLog s3)))
                 (logger_message ''Build log not found. Remove the build log setting or provide a build log file on disk at the given location.'') s3)
         else s1\<lparr>configurationBuildLog := buildLog s1\<rparr>)"

definition readCurrentMakeConfigurationCommand :: "Env \<Rightarrow> State \<Rightarrow> State" where
  "readCurrentMakeConfigurationCommand env s =
     (let s1 = readMakeConfigurations env s;
          s2 = getCommandForConfiguration env (Some (currentMakeConfiguration s1)) s1
      in getBuildLogForConfiguration env (Some (currentMakeConfiguration s2)) s2)"

definition setCurrentMakeConfiguration :: "Env \<Rightarrow> string \<Rightarrow> State \<Rightarrow> State" where
  "setCurrentMakeConfiguration env configuration s =
     (let s1 = s\<lparr>currentMakeConfiguration := configuration\<rparr>;
          s2 = s1\<lparr>statusConfiguration := Some (currentMakeConfiguration s1)\<rparr>;
          s3 = logger_message (''Setting configuration - '' @ currentMakeConfiguration s2) s2;
          s4 = getCommandForConfiguration env (Some (currentMakeConfiguration s3)) s3
      in getBuildLogForConfiguration env (Some (currentMakeConfiguration s4)) s4)"

section \<open>Reconciliation: the guard and the two listeners\<close>

definition startListeningToSettingsChanged :: "State \<Rightarrow> State" where
  "startListeningToSettingsChanged s = s\<lparr>ignoreSettingsChanged := False\<rparr>"

definition stopListeningToSettingsChanged :: "State \<Rightarrow> State" where
  "stopListeningToSettingsChanged s = s\<lparr>ignoreSettingsChanged := True\<rparr>"

text \<open>The reads of \<open>initFromSettings\<close>, at activation; it then registers the two listeners.\<close>

definition initFromSettings :: "Env \<Rightarrow> State \<Rightarrow> State" where
  "initFromSettings env s =
     readCurrentLaunchConfiguration env
       (readCurrentTarget
         (readCurrentMakeConfigurationCommand env
           (readCurrentMakeConfiguration
             (readBuildLog env
               (readMakePath
                 (readExtensionLog env
                   (readLoggingLevel s)))))))"

text \<open>The listener of \<open>vscode.workspace.onDidSaveTextDocument\<close>, given the saved file's name.\<close>

definition onDidSaveTextDocument :: "Env \<Rightarrow> string \<Rightarrow> State \<Rightarrow> State" where
  "onDidSaveTextDocument env fileName s =
     (if normalize fileName = normalize (configurationsJsonPath env) \<and> \<not> ignoreSettingsChanged s
      then parseBuildOrDryRun
             (readCurrentMakeConfigurationCommand env
               (logger_message ''Changes detected in make_configurations.json and triggering update'' s))
      else s)"

text \<open>
  The listener of \<open>vscode.workspace.onDidChangeConfiguration\<close>. Its six comparisons are
  separate steps, each threading the local flag \<open>updateConfigProvider\<close> with the state.
\<close>

definition checkBuildConfiguration :: "bool \<times> State \<Rightarrow> bool \<times> State" where
  "checkBuildConfiguration fs =
     (let (updateConfigProvider, s) = fs;
          updatedBuildConfiguration = Makefile_buildConfiguration (settings s)
      in if updatedBuildConfiguration \<noteq> Some (currentMakeConfiguration s)
            \<and> (updatedBuildConfiguration \<noteq> None \<or> currentMakeConfiguration s \<noteq> ''Default'')
         then (True, readCurrentMakeConfiguration
                       (logger_message ''Make configuration setting changed.'' s))
         else (updateConfigProvider, s))"

definition checkBuildTarget :: "bool \<times> State \<Rightarrow> bool \<times> State" where
  "checkBuildTarget fs =
     (let (updateConfigProvider, s) = fs;
          updatedTarget = Makefile_buildTarget (settings s)
      in if updatedTarget \<noteq> currentTarget s
            \<and> (updatedTarget \<noteq> None \<or> currentTarget s \<noteq> Some [])
         then (True, readCurrentTarget (logger_message ''Target setting changed.'' s))
         else (updateConfigProvider, s))"

definition checkLaunchConfiguration :: "Env \<Rightarrow> bool \<times> State \<Rightarrow> bool \<times> State" where
  "checkLaunchConfiguration env fs =
     (let (updateConfigProvider, s) = fs;
          (updatedLaunchConfiguration, s1) = get_launchConfiguration s
      in if strict_neq_object updatedLaunchConfiguration (currentLaunchConfiguration s1)
         then (updateConfigProvider,
               readCurrentLaunchConfiguration env
                 (logger_message ''Launch configuration setting changed.'' s1))
         else (updateConfigProvider, s1))"

definition checkBuildLog :: "Env \<Rightarrow> bool \<times> State \<Rightarrow> bool \<times> State" where
  "checkBuildLog env fs =
     (let (updateConfigProvider, s) = fs;
          updatedBuildLog = Makefile_buildLog (settings s)
      in if updatedBuildLog \<noteq> buildLog s
         then (True, readBuildLog env (logger_message ''Build log setting changed.'' s))
         else (updateConfigProvider, s))"

definition checkExtensionLog :: "Env \<Rightarrow> bool \<times> State \<Rightarrow> bool \<times> State" where
  "checkExtensionLog env fs =
     (let (updateConfigProvider, s) = fs;
          updatedExtensionLog = Makefile_extensionLog (settings s)
      in if updatedExtensionLog \<noteq> extensionLog s
         then (updateConfigProvider,
               readExtensionLog env (logger_message ''MakefileTools log setting changed.'' s))
         else (updateConfigProvider, s))"

definition checkMakePath :: "bool \<times> State \<Rightarrow> bool \<times> State" where
  "checkMakePath fs =
     (let (updateConfigProvider, s) = fs;
          updatedMakePath = Makefile_makePath (settings s)
      in if updatedMakePath \<noteq> makePath s
         then (True, readMakePath (logger_message ''Make path setting changed.'' s))
         else (updateConfigProvider, s))"

text \<open>The six comparisons in the listener's order, from \<open>updateConfigProvider = false\<close>.\<close>

definition settingsComparisons :: "Env \<Rightarrow> State \<Rightarrow> bool \<times> State" where
  "settingsComparisons env s =
     checkMakePath
       (checkExtensionLog env
         (checkBuildLog env
           (checkLaunchConfiguration env
             (checkBuildTarget
               (checkBuildConfiguration (False, s))))))"

text \<open>
  \<open>affectsMakefile\<close> is the answer of \<open>e.affectsConfiguration('Makefile', ...)\<close> for the
  notification at hand.
\<close>

definition onDidChangeConfiguration :: "Env \<Rightarrow> bool \<Rightarrow> State \<Rightarrow> State" where
  "onDidChangeConfiguration env affectsMakefile s =
     (if workspaceFolders env \<and> \<not> ignoreSettingsChanged s \<and> affectsMakefile then
        (let (updateConfigProvider, s1) =
               settingsComparisons env (logger_message ''Detected a change in settings'' s)
         in if updateConfigProvider then
              (let s2 = logger_message ''Some of the changes detected in settings are triggering udpates'' s1;
                   s3 = getCommandForConfiguration env (Some (currentMakeConfiguration s2)) s2;
                   s4 = getBuildLogForConfiguration env (Some (currentMakeConfiguration s3)) s3
               in parseBuildOrDryRun s4)
            else s1)
      else s)"

text \<open>
  A notification as the event loop delivers it. A change of the settings store comes
  with the store's new content, whoever wrote it; each notification sees the
  environment of its own moment.
\<close>

datatype Notification =
    DocumentSaved Env string
  | ConfigurationChanged Env Settings bool

fun deliver :: "Notification \<Rightarrow> State \<Rightarrow> State" where
  "deliver (DocumentSaved env fileName) s = onDidSaveTextDocument env fileName s"
| "deliver (ConfigurationChanged env newSettings affectsMakefile) s =
     onDidChangeConfiguration env affectsMakefile (s\<lparr>settings := newSettings\<rparr>)"

fun deliverAll :: "Notification list \<Rightarrow> State \<Rightarrow> State" where
  "deliverAll [] s = s"
| "deliverAll (n # ns) s = deliverAll ns (deliver n s)"

section \<open>Selections written to the settings store\<close>

definition setConfigurationByName :: "Env \<Rightarrow> string \<Rightarrow> State \<Rightarrow> State" where
  "setConfigurationByName env configurationName s =
     (let s1 = s\<lparr>currentMakeConfiguration := configurationName\<rparr>;
          s2 = s1\<lparr>settings := (settings s1)
                  \<lparr>Makefile_buildConfiguration := Some (currentMakeConfiguration s1)\<rparr>\<rparr>;
          s3 = setCurrentMakeConfiguration env (currentMakeConfiguration s2) s2
      in parseBuildOrDryRun s3)"

definition prepareConfigurationsQuickPick :: "Env \<Rightarrow> State \<Rightarrow> string list \<times> State" where
  "prepareConfigurationsQuickPick env s =
     (let s1 = readMakeConfigurations env s;
          items = map name (makeConfigurations s1)
      in if 0 < length items then
           (items, logger_message (''Found the following configurations defined in make_configurations.json: ''
                                    @ join_js items '';'') s1)
         else (items @ [''Default''],
               logger_message ''No configurations defined in make_configurations.json.'' s1))"

definition setTargetByName :: "string \<Rightarrow> State \<Rightarrow> State" where
  "setTargetByName targetName s =
     (let s1 = s\<lparr>currentTarget := Some targetName\<rparr>;
          s2 = s1\<lparr>statusTarget := currentTarget s1\<rparr>;
          s3 = logger_message (''Setting target '' @ js_string (currentTarget s2)) s2;
          s4 = s3\<lparr>settings := (settings s3)\<lparr>Makefile_buildTarget := currentTarget s3\<rparr>\<rparr>
      in parseBuildOrDryRun s4)"

text \<open>The object literal of \<open>stringToLaunchConfiguration\<close> is a new object.\<close>

definition setLaunchConfigurationByName :: "Env \<Rightarrow> string \<Rightarrow> State \<Rightarrow> State" where
  "setLaunchConfigurationByName env launchConfigurationName s =
     (let s1 = s\<lparr>statusLaunchConfiguration := Some launchConfigurationName\<rparr>;
          s2 = (case stringToLaunchConfiguration env launchConfigurationName of
                  None \<Rightarrow> s1\<lparr>currentLaunchConfiguration := None\<rparr>
                | Some c \<Rightarrow> s1\<lparr>currentLaunchConfiguration := Some (LaunchObject (nextRef s1) c),
                               nextRef := Suc (nextRef s1)\<rparr>);
          s3 = logger_message (''Setting launch target \"'' @ launchConfigurationName @ ''\"'') s2
      in s3\<lparr>settings := (settings s3)
              \<lparr>Makefile_launchConfiguration :=
                 map_option objectFields (currentLaunchConfiguration s3)\<rparr>\<rparr>)"

section \<open>Discovery from a build log\<close>

definition parseLaunchConfigurations :: "Env \<Rightarrow> string \<Rightarrow> State \<Rightarrow> string list \<times> State" where
  "parseLaunchConfigurations env source s =
     (let binariesLaunchConfigurations = parseForLaunchConfiguration env source;
          items = map (launchConfigurationToString env) binariesLaunchConfigurations;
          items' = filter_first_occurrence (sort_js items)
      in (items', logger_message (''Found the following launch targets defined in the makefile: ''
                                   @ join_js items' '';'') s))"

definition parseLaunchConfigurationsFromBuildLog :: "Env \<Rightarrow> State \<Rightarrow> string list option \<times> State" where
  "parseLaunchConfigurationsFromBuildLog env s =
     (let buildLogContent =
            (if truthy (configurationBuildLog s) then readFile env (the (configurationBuildLog s))
             else None)
      in if truthy buildLogContent then
           (let (items, s1) =
                  parseLaunchConfigurations env (the buildLogContent)
                    (logger_message (''Parsing the provided build log \"'' @ the (configurationBuildLog s)
                                      @ ''\" for launch configurations...'') s)
            in (Some items, s1))
         else (None, s))"

definition parseTargetsFromBuildLog :: "Env \<Rightarrow> State \<Rightarrow> string list option \<times> State" where
  "parseTargetsFromBuildLog env s =
     (let buildLogContent =
            (if truthy (configurationBuildLog s) then readFile env (the (configurationBuildLog s))
             else None)
      in if truthy buildLogContent then
           (let s1 = logger_message (''Parsing the provided build log \"'' @ the (configurationBuildLog s)
                                      @ ''\" for targets...'') s;
                makefileTargets = parseTargets env (the buildLogContent)
            in (Some (sort_js makefileTargets), s1))
         else (None, s))"

text \<open>
  \<open>setNewTarget\<close> up to the point where it waits: either the selection prompt is shown
  with the targets of the build log, or a child process is spawned with a command, its
  arguments and a working directory.
\<close>

datatype Discovery =
    SelectTarget "string list"
  | SpawnChildProcess string "string list" string

definition setNewTarget :: "Env \<Rightarrow> State \<Rightarrow> Discovery \<times> State" where
  "setNewTarget env s =
     (case parseTargetsFromBuildLog env s of
        (Some makefileTargets, s1) \<Rightarrow> (SelectTarget makefileTargets, s1)
      | (None, s1) \<Rightarrow>
          (let commandArgs' = [''all'', ''--dry-run'', ''-p''] @ configurationCommandArgs s1;
               s2 = logger_message (''Parsing the targets in the makefile. Command: ''
                       @ configurationCommandName s1 @ '' '' @ join_js commandArgs' '' '') s1
           in (SpawnChildProcess (configurationCommandName s2) commandArgs'
                 (js_or (rootPath env) []), s2)))"

section \<open>Allocation of launch objects\<close>

text \<open>
  The object in \<open>currentLaunchConfiguration\<close>, if there is one, was allocated before the
  next object will be: its number is below the counter.
\<close>

definition launchAllocated :: "State \<Rightarrow> bool" where
  "launchAllocated s =
     (case currentLaunchConfiguration s of None \<Rightarrow> True | Some obj \<Rightarrow> objectRef obj < nextRef s)"

section \<open>Values the comparisons treat as the same\<close>

text \<open>
  The listener of the settings compares the stored configuration and target with the
  variables by \<open>!==\<close>, with one exception each, stated in its comments: an undefined
  build configuration is the configuration \<open>Default\<close>, and an undefined target is the
  empty target.
\<close>

definition configurationOf :: "string option \<Rightarrow> string" where
  "configurationOf v = (case v of None \<Rightarrow> ''Default'' | Some c \<Rightarrow> c)"

definition targetOf :: "string option \<Rightarrow> string" where
  "targetOf v = (case v of None \<Rightarrow> [] | Some t \<Rightarrow> t)"

section \<open>A sample workspace\<close>

text \<open>
  Concrete values on which the theorems below are instantiated: the module's variables
  as the module initialises them, an empty settings store, a workspace rooted at
  \<open>/proj\<close> with no file in it, and a few configuration records.
\<close>

definition emptySettings :: Settings where
  "emptySettings =
     \<lparr>Makefile_buildConfiguration = None, Makefile_buildTarget = None,
      Makefile_launchConfiguration = None, Makefile_buildLog = None,
      Makefile_extensionLog = None, Makefile_makePath = None, Makefile_loggingLevel = None\<rparr>"

definition moduleState :: State where
  "moduleState =
     \<lparr>currentMakeConfiguration = [], makePath = None, buildLog = None, loggingLevel = None,
      extensionLog = None, currentLaunchConfiguration = None, configurationCommandName = [],
      configurationCommandArgs = [], configurationBuildLog = None, makeConfigurations = [],
      currentTarget = None, ignoreSettingsChanged = False, settings = emptySettings,
      nextRef = 0, logged = [], errorMessages = [], parseRequests = 0,
      statusConfiguration = None, statusTarget = None, statusLaunchConfiguration = None\<rparr>"

definition sampleEnv :: Env where
  "sampleEnv =
     \<lparr>rootPath = Some ''/proj'', workspaceFolders = True, fileSystem = (\<lambda>p. None),
      jsonParse = (\<lambda>t. None), makeRelPath = pathRelativeTo, makeFullPath = joinAgainst,
      parseTargets = (\<lambda>t. []), parseForLaunchConfiguration = (\<lambda>t. [])\<rparr>"

definition recordA :: MakeConfiguration where
  "recordA = \<lparr>name = ''A'', commandName = Some ''nmake'', commandArgs = Some [''/f'', ''Foo''],
              cfgBuildLog = None\<rparr>"

definition recordLogs :: MakeConfiguration where
  "recordLogs = \<lparr>name = ''A'', commandName = None, commandArgs = None,
                 cfgBuildLog = Some ''logs/build.log''\<rparr>"

text \<open>
  The same workspace with a configuration file that parses to the record \<open>A\<close>, and with
  one whose content is no JSON.
\<close>

definition configurationsText :: string where
  "configurationsText =
     ''[{\"name\": \"A\", \"commandName\": \"nmake\", \"commandArgs\": [\"/f\", \"Foo\"]}]''"

definition envWithConfigurations :: Env where
  "envWithConfigurations =
     sampleEnv\<lparr>fileSystem := (\<lambda>p. if p = ''/proj/.vscode/make_configurations.json''
                                  then Some configurationsText else None),
                jsonParse := (\<lambda>t. if t = configurationsText then Some [recordA] else None)\<rparr>"

definition envWithBrokenConfigurations :: Env where
  "envWithBrokenConfigurations =
     sampleEnv\<lparr>fileSystem := (\<lambda>p. if p = ''/proj/.vscode/make_configurations.json''
                                  then Some ''[{'' else None)\<rparr>"

text \<open>
  The same workspace with a build log whose parse gives the target lines \<open>all\<close>, \<open>clean\<close>
  and \<open>clean\<close>.
\<close>

definition envWithBuildLog :: Env where
  "envWithBuildLog =
     sampleEnv\<lparr>fileSystem := (\<lambda>p. if p = ''/proj/build.log'' then Some ''all: clean: clean:''
                                  else None),
                parseTargets := (\<lambda>t. if t = ''all: clean: clean:''
                                    then [''all'', ''clean'', ''clean''] else [])\<rparr>"

text \<open>A launch record with no arguments, and one with two.\<close>

definition launchNoArgs :: LaunchConfiguration where
  "launchNoArgs = \<lparr>binary = ''/proj/bin/app'', cwd = ''/proj'', args = []\<rparr>"

definition launchTwoArgs :: LaunchConfiguration where
  "launchTwoArgs = \<lparr>binary = ''/proj/bin/app'', cwd = ''/proj'', args = [''-v'', ''in.txt'']\<rparr>"

text \<open>A settings store in use, and the module activated on it and on the empty store.\<close>

definition settingsInUse :: Settings where
  "settingsInUse =
     \<lparr>Makefile_buildConfiguration = Some ''A'', Makefile_buildTarget = Some ''all'',
      Makefile_launchConfiguration = None, Makefile_buildLog = Some ''/proj/build.log'',
      Makefile_extensionLog = None, Makefile_makePath = Some ''/usr/bin/make'',
      Makefile_loggingLevel = None\<rparr>"

definition activatedInUse :: State where
  "activatedInUse = initFromSettings sampleEnv (moduleState\<lparr>settings := settingsInUse\<rparr>)"

definition activatedEmpty :: State where
  "activatedEmpty = initFromSettings sampleEnv (moduleState\<lparr>settings := emptySettings\<rparr>)"

definition activatedWithLaunch :: State where
  "activatedWithLaunch =
     initFromSettings sampleEnv
       (moduleState\<lparr>settings := emptySettings\<lparr>Makefile_launchConfiguration := Some launchTwoArgs\<rparr>\<rparr>)"


text \<open>A record whose command is a script, given by a relative path.\<close>

definition recordScript :: MakeConfiguration where
  "recordScript = \<lparr>name = ''S'', commandName = Some ''tools/build.sh'', commandArgs = None,
                   cfgBuildLog = None\<rparr>"

text \<open>
  A settings store whose build log is a relative path, and the module activated on it.
\<close>

definition settingsRelativeLog :: Settings where
  "settingsRelativeLog =
     \<lparr>Makefile_buildConfiguration = None, Makefile_buildTarget = None,
      Makefile_launchConfiguration = None, Makefile_buildLog = Some ''build.log'',
      Makefile_extensionLog = None, Makefile_makePath = None, Makefile_loggingLevel = None\<rparr>"

definition activatedRelativeLog :: State where
  "activatedRelativeLog = initFromSettings sampleEnv (moduleState\<lparr>settings := settingsRelativeLog\<rparr>)"
section \<open>Facts about the path functions\<close>

lemma normalize_nonempty: "normalize p \<noteq> []"
  by (simp add: normalize_def Let_def)

lemma path_join_nonempty: "path_join parts \<noteq> []"
  by (simp add: path_join_def Let_def normalize_nonempty)

lemma isAbsolute_normalize: "isAbsolute p \<Longrightarrow> isAbsolute (normalize p)"
  by (cases p) (simp_all add: isAbsolute_def normalize_def Let_def)

lemma isAbsolute_path_join: "isAbsolute r \<Longrightarrow> isAbsolute (path_join [r, b])"
proof -
  assume a: "isAbsolute r"
  then obtain cs where r: "r = CHR ''/'' # cs"
    by (cases r) (simp_all add: isAbsolute_def)
  have "isAbsolute (join_js (filter (\<lambda>a. a \<noteq> []) [r, b]) ''/'')"
    by (simp add: r isAbsolute_def)
  then show ?thesis
    by (simp add: path_join_def Let_def r isAbsolute_normalize)
qed

lemma path_join_make: "path_join [[], ''make''] = ''make''"
  by code_simp

section \<open>What each function leaves unchanged\<close>

text \<open>
  Every function of the module updates a few variables and may add lines to the log.
  The lemmas of this section list, function by function, the variables it does not
  touch; they are simplification rules.
\<close>

lemma logger_message_frame [simp]:
  "currentMakeConfiguration (logger_message m s) = currentMakeConfiguration s"
  "makePath (logger_message m s) = makePath s"
  "buildLog (logger_message m s) = buildLog s"
  "extensionLog (logger_message m s) = extensionLog s"
  "currentLaunchConfiguration (logger_message m s) = currentLaunchConfiguration s"
  "currentTarget (logger_message m s) = currentTarget s"
  "makeConfigurations (logger_message m s) = makeConfigurations s"
  "ignoreSettingsChanged (logger_message m s) = ignoreSettingsChanged s"
  "settings (logger_message m s) = settings s"
  "nextRef (logger_message m s) = nextRef s"
  "parseRequests (logger_message m s) = parseRequests s"
  "statusLaunchConfiguration (logger_message m s) = statusLaunchConfiguration s"
  "configurationCommandName (logger_message m s) = configurationCommandName s"
  "configurationCommandArgs (logger_message m s) = configurationCommandArgs s"
  "configurationBuildLog (logger_message m s) = configurationBuildLog s"
  by (simp_all add: logger_message_def)

lemma if_then_logger_frame [simp]:
  "currentMakeConfiguration (if_then c (logger_message m) s) = currentMakeConfiguration s"
  "makePath (if_then c (logger_message m) s) = makePath s"
  "buildLog (if_then c (logger_message m) s) = buildLog s"
  "extensionLog (if_then c (logger_message m) s) = extensionLog s"
  "currentLaunchConfiguration (if_then c (logger_message m) s) = currentLaunchConfiguration s"
  "currentTarget (if_then c (logger_message m) s) = currentTarget s"
  "makeConfigurations (if_then c (logger_message m) s) = makeConfigurations s"
  "ignoreSettingsChanged (if_then c (logger_message m) s) = ignoreSettingsChanged s"
  "settings (if_then c (logger_message m) s) = settings s"
  "nextRef (if_then c (logger_message m) s) = nextRef s"
  "parseRequests (if_then c (logger_message m) s) = parseRequests s"
  "statusLaunchConfiguration (if_then c (logger_message m) s) = statusLaunchConfiguration s"
  "configurationCommandName (if_then c (logger_message m) s) = configurationCommandName s"
  "configurationCommandArgs (if_then c (logger_message m) s) = configurationCommandArgs s"
  "configurationBuildLog (if_then c (logger_message m) s) = configurationBuildLog s"
  by (simp_all add: if_then_def logger_message_def)

lemma readCurrentMakeConfiguration_frame [simp]:
  "makePath (readCurrentMakeConfiguration s) = makePath s"
  "buildLog (readCurrentMakeConfiguration s) = buildLog s"
  "extensionLog (readCurrentMakeConfiguration s) = extensionLog s"
  "currentLaunchConfiguration (readCurrentMakeConfiguration s) = currentLaunchConfiguration s"
  "currentTarget (readCurrentMakeConfiguration s) = currentTarget s"
  "makeConfigurations (readCurrentMakeConfiguration s) = makeConfigurations s"
  "ignoreSettingsChanged (readCurrentMakeConfiguration s) = ignoreSettingsChanged s"
  "settings (readCurrentMakeConfiguration s) = settings s"
  "nextRef (readCurrentMakeConfiguration s) = nextRef s"
  "parseRequests (readCurrentMakeConfiguration s) = parseRequests s"
  "statusLaunchConfiguration (readCurrentMakeConfiguration s) = statusLaunchConfiguration s"
  by (simp_all add: readCurrentMakeConfiguration_def Let_def)

lemma readCurrentTarget_frame [simp]:
  "currentMakeConfiguration (readCurrentTarget s) = currentMakeConfiguration s"
  "makePath (readCurrentTarget s) = makePath s"
  "buildLog (readCurrentTarget s) = buildLog s"
  "extensionLog (readCurrentTarget s) = extensionLog s"
  "currentLaunchConfiguration (readCurrentTarget s) = currentLaunchConfiguration s"
  "makeConfigurations (readCurrentTarget s) = makeConfigurations s"
  "ignoreSettingsChanged (readCurrentTarget s) = ignoreSettingsChanged s"
  "settings (readCurrentTarget s) = settings s"
  "nextRef (readCurrentTarget s) = nextRef s"
  "parseRequests (readCurrentTarget s) = parseRequests s"
  "statusLaunchConfiguration (readCurrentTarget s) = statusLaunchConfiguration s"
  by (simp_all add: readCurrentTarget_def Let_def)

lemma readMakePath_frame [simp]:
  "currentMakeConfiguration (readMakePath s) = currentMakeConfiguration s"
  "buildLog (readMakePath s) = buildLog s"
  "extensionLog (readMakePath s) = extensionLog s"
  "currentLaunchConfiguration (readMakePath s) = currentLaunchConfiguration s"
  "currentTarget (readMakePath s) = currentTarget s"
  "makeConfigurations (readMakePath s) = makeConfigurations s"
  "ignoreSettingsChanged (readMakePath s) = ignoreSettingsChanged s"
  "settings (readMakePath s) = settings s"
  "nextRef (readMakePath s) = nextRef s"
  "parseRequests (readMakePath s) = parseRequests s"
  "statusLaunchConfiguration (readMakePath s) = statusLaunchConfiguration s"
  by (simp_all add: readMakePath_def Let_def)

lemma readBuildLog_frame [simp]:
  "currentMakeConfiguration (readBuildLog env s) = currentMakeConfiguration s"
  "makePath (readBuildLog env s) = makePath s"
  "extensionLog (readBuildLog env s) = extensionLog s"
  "currentLaunchConfiguration (readBuildLog env s) = currentLaunchConfiguration s"
  "currentTarget (readBuildLog env s) = currentTarget s"
  "makeConfigurations (readBuildLog env s) = makeConfigurations s"
  "ignoreSettingsChanged (readBuildLog env s) = ignoreSettingsChanged s"
  "settings (readBuildLog env s) = settings s"
  "nextRef (readBuildLog env s) = nextRef s"
  "parseRequests (readBuildLog env s) = parseRequests s"
  "statusLaunchConfiguration (readBuildLog env s) = statusLaunchConfiguration s"
  by (simp_all add: readBuildLog_def Let_def)

lemma readExtensionLog_frame [simp]:
  "currentMakeConfiguration (readExtensionLog env s) = currentMakeConfiguration s"
  "makePath (readExtensionLog env s) = makePath s"
  "buildLog (readExtensionLog env s) = buildLog s"
  "currentLaunchConfiguration (readExtensionLog env s) = currentLaunchConfiguration s"
  "currentTarget (readExtensionLog env s) = currentTarget s"
  "makeConfigurations (readExtensionLog env s) = makeConfigurations s"
  "ignoreSettingsChanged (readExtensionLog env s) = ignoreSettingsChanged s"
  "settings (readExtensionLog env s) = settings s"
  "nextRef (readExtensionLog env s) = nextRef s"
  "parseRequests (readExtensionLog env s) = parseRequests s"
  "statusLaunchConfiguration (readExtensionLog env s) = statusLaunchConfiguration s"
  by (simp_all add: readExtensionLog_def Let_def)

lemma readLoggingLevel_frame [simp]:
  "currentMakeConfiguration (readLoggingLevel s) = currentMakeConfiguration s"
  "makePath (readLoggingLevel s) = makePath s"
  "buildLog (readLoggingLevel s) = buildLog s"
  "extensionLog (readLoggingLevel s) = extensionLog s"
  "currentLaunchConfiguration (readLoggingLevel s) = currentLaunchConfiguration s"
  "currentTarget (readLoggingLevel s) = currentTarget s"
  "makeConfigurations (readLoggingLevel s) = makeConfigurations s"
  "ignoreSettingsChanged (readLoggingLevel s) = ignoreSettingsChanged s"
  "settings (readLoggingLevel s) = settings s"
  "nextRef (readLoggingLevel s) = nextRef s"
  "parseRequests (readLoggingLevel s) = parseRequests s"
  "statusLaunchConfiguration (readLoggingLevel s) = statusLaunchConfiguration s"
  by (simp_all add: readLoggingLevel_def Let_def)

lemma readCurrentLaunchConfiguration_frame [simp]:
  "currentMakeConfiguration (readCurrentLaunchConfiguration env s) = currentMakeConfiguration s"
  "makePath (readCurrentLaunchConfiguration env s) = makePath s"
  "buildLog (readCurrentLaunchConfiguration env s) = buildLog s"
  "extensionLog (readCurrentLaunchConfiguration env s) = extensionLog s"
  "currentTarget (readCurrentLaunchConfiguration env s) = currentTarget s"
  "makeConfigurations (readCurrentLaunchConfiguration env s) = makeConfigurations s"
  "ignoreSettingsChanged (readCurrentLaunchConfiguration env s) = ignoreSettingsChanged s"
  "settings (readCurrentLaunchConfiguration env s) = settings s"
  "parseRequests (readCurrentLaunchConfiguration env s) = parseRequests s"
  by (simp_all add: readCurrentLaunchConfiguration_def get_launchConfiguration_def Let_def
        split: option.splits)

lemma readMakeConfigurations_frame [simp]:
  "currentMakeConfiguration (readMakeConfigurations env s) = currentMakeConfiguration s"
  "makePath (readMakeConfigurations env s) = makePath s"
  "buildLog (readMakeConfigurations env s) = buildLog s"
  "extensionLog (readMakeConfigurations env s) = extensionLog s"
  "currentLaunchConfiguration (readMakeConfigurations env s) = currentLaunchConfiguration s"
  "currentTarget (readMakeConfigurations env s) = currentTarget s"
  "ignoreSettingsChanged (readMakeConfigurations env s) = ignoreSettingsChanged s"
  "settings (readMakeConfigurations env s) = settings s"
  "nextRef (readMakeConfigurations env s) = nextRef s"
  "parseRequests (readMakeConfigurations env s) = parseRequests s"
  "statusLaunchConfiguration (readMakeConfigurations env s) = statusLaunchConfiguration s"
  by (simp_all add: readMakeConfigurations_def showErrorMessage_def Let_def split: option.splits)

lemma getCommandForConfiguration_frame [simp]:
  "currentMakeConfiguration (getCommandForConfiguration env c s) = currentMakeConfiguration s"
  "makePath (getCommandForConfiguration env c s) = makePath s"
  "buildLog (getCommandForConfiguration env c s) = buildLog s"
  "extensionLog (getCommandForConfiguration env c s) = extensionLog s"
  "currentLaunchConfiguration (getCommandForConfiguration env c s) = currentLaunchConfiguration s"
  "currentTarget (getCommandForConfiguration env c s) = currentTarget s"
  "makeConfigurations (getCommandForConfiguration env c s) = makeConfigurations s"
  "ignoreSettingsChanged (getCommandForConfiguration env c s) = ignoreSettingsChanged s"
  "settings (getCommandForConfiguration env c s) = settings s"
  "nextRef (getCommandForConfiguration env c s) = nextRef s"
  "parseRequests (getCommandForConfiguration env c s) = parseRequests s"
  "statusLaunchConfiguration (getCommandForConfiguration env c s) = statusLaunchConfiguration s"
  by (simp_all add: getCommandForConfiguration_def Let_def)

lemma getBuildLogForConfiguration_frame [simp]:
  "currentMakeConfiguration (getBuildLogForConfiguration env c s) = currentMakeConfiguration s"
  "makePath (getBuildLogForConfiguration env c s) = makePath s"
  "buildLog (getBuildLogForConfiguration env c s) = buildLog s"
  "extensionLog (getBuildLogForConfiguration env c s) = extensionLog s"
  "currentLaunchConfiguration (getBuildLogForConfiguration env c s) = currentLaunchConfiguration s"
  "currentTarget (getBuildLogForConfiguration env c s) = currentTarget s"
  "makeConfigurations (getBuildLogForConfiguration env c s) = makeConfigurations s"
  "ignoreSettingsChanged (getBuildLogForConfiguration env c s) = ignoreSettingsChanged s"
  "settings (getBuildLogForConfiguration env c s) = settings s"
  "nextRef (getBuildLogForConfiguration env c s) = nextRef s"
  "parseRequests (getBuildLogForConfiguration env c s) = parseRequests s"
  "statusLaunchConfiguration (getBuildLogForConfiguration env c s) = statusLaunchConfiguration s"
  by (simp_all add: getBuildLogForConfiguration_def Let_def)

lemma parseBuildOrDryRun_frame [simp]:
  "currentMakeConfiguration (parseBuildOrDryRun s) = currentMakeConfiguration s"
  "makePath (parseBuildOrDryRun s) = makePath s"
  "buildLog (parseBuildOrDryRun s) = buildLog s"
  "extensionLog (parseBuildOrDryRun s) = extensionLog s"
  "currentLaunchConfiguration (parseBuildOrDryRun s) = currentLaunchConfiguration s"
  "currentTarget (parseBuildOrDryRun s) = currentTarget s"
  "makeConfigurations (parseBuildOrDryRun s) = makeConfigurations s"
  "ignoreSettingsChanged (parseBuildOrDryRun s) = ignoreSettingsChanged s"
  "settings (parseBuildOrDryRun s) = settings s"
  "nextRef (parseBuildOrDryRun s) = nextRef s"
  "parseRequests (parseBuildOrDryRun s) = Suc (parseRequests s)"
  "statusLaunchConfiguration (parseBuildOrDryRun s) = statusLaunchConfiguration s"
  by (simp_all add: parseBuildOrDryRun_def)

lemma readCurrentMakeConfigurationCommand_frame [simp]:
  "currentMakeConfiguration (readCurrentMakeConfigurationCommand env s) = currentMakeConfiguration s"
  "makePath (readCurrentMakeConfigurationCommand env s) = makePath s"
  "buildLog (readCurrentMakeConfigurationCommand env s) = buildLog s"
  "extensionLog (readCurrentMakeConfigurationCommand env s) = extensionLog s"
  "currentLaunchConfiguration (readCurrentMakeConfigurationCommand env s) = currentLaunchConfiguration s"
  "currentTarget (readCurrentMakeConfigurationCommand env s) = currentTarget s"
  "ignoreSettingsChanged (readCurrentMakeConfigurationCommand env s) = ignoreSettingsChanged s"
  "settings (readCurrentMakeConfigurationCommand env s) = settings s"
  "nextRef (readCurrentMakeConfigurationCommand env s) = nextRef s"
  "parseRequests (readCurrentMakeConfigurationCommand env s) = parseRequests s"
  "statusLaunchConfiguration (readCurrentMakeConfigurationCommand env s) = statusLaunchConfiguration s"
  by (simp_all add: readCurrentMakeConfigurationCommand_def Let_def)

lemma checkBuildConfiguration_frame [simp]:
  "currentLaunchConfiguration (snd (checkBuildConfiguration fs)) = currentLaunchConfiguration (snd fs)"
  "settings (snd (checkBuildConfiguration fs)) = settings (snd fs)"
  "nextRef (snd (checkBuildConfiguration fs)) = nextRef (snd fs)"
  "parseRequests (snd (checkBuildConfiguration fs)) = parseRequests (snd fs)"
  "statusLaunchConfiguration (snd (checkBuildConfiguration fs)) = statusLaunchConfiguration (snd fs)"
  "currentTarget (snd (checkBuildConfiguration fs)) = currentTarget (snd fs)"
  "buildLog (snd (checkBuildConfiguration fs)) = buildLog (snd fs)"
  "extensionLog (snd (checkBuildConfiguration fs)) = extensionLog (snd fs)"
  "makePath (snd (checkBuildConfiguration fs)) = makePath (snd fs)"
  by (simp_all add: checkBuildConfiguration_def Let_def split: prod.splits)

lemma checkBuildTarget_frame [simp]:
  "currentLaunchConfiguration (snd (checkBuildTarget fs)) = currentLaunchConfiguration (snd fs)"
  "settings (snd (checkBuildTarget fs)) = settings (snd fs)"
  "nextRef (snd (checkBuildTarget fs)) = nextRef (snd fs)"
  "parseRequests (snd (checkBuildTarget fs)) = parseRequests (snd fs)"
  "statusLaunchConfiguration (snd (checkBuildTarget fs)) = statusLaunchConfiguration (snd fs)"
  "currentMakeConfiguration (snd (checkBuildTarget fs)) = currentMakeConfiguration (snd fs)"
  "buildLog (snd (checkBuildTarget fs)) = buildLog (snd fs)"
  "extensionLog (snd (checkBuildTarget fs)) = extensionLog (snd fs)"
  "makePath (snd (checkBuildTarget fs)) = makePath (snd fs)"
  by (simp_all add: checkBuildTarget_def Let_def split: prod.splits)

lemma checkLaunchConfiguration_frame [simp]:
  "settings (snd (checkLaunchConfiguration env fs)) = settings (snd fs)"
  "parseRequests (snd (checkLaunchConfiguration env fs)) = parseRequests (snd fs)"
  "currentMakeConfiguration (snd (checkLaunchConfiguration env fs)) = currentMakeConfiguration (snd fs)"
  "currentTarget (snd (checkLaunchConfiguration env fs)) = currentTarget (snd fs)"
  "buildLog (snd (checkLaunchConfiguration env fs)) = buildLog (snd fs)"
  "extensionLog (snd (checkLaunchConfiguration env fs)) = extensionLog (snd fs)"
  "makePath (snd (checkLaunchConfiguration env fs)) = makePath (snd fs)"
  "fst (checkLaunchConfiguration env fs) = fst fs"
  by (simp_all add: checkLaunchConfiguration_def get_launchConfiguration_def Let_def
        split: prod.splits option.splits)

lemma checkBuildLog_frame [simp]:
  "currentLaunchConfiguration (snd (checkBuildLog env fs)) = currentLaunchConfiguration (snd fs)"
  "settings (snd (checkBuildLog env fs)) = settings (snd fs)"
  "nextRef (snd (checkBuildLog env fs)) = nextRef (snd fs)"
  "parseRequests (snd (checkBuildLog env fs)) = parseRequests (snd fs)"
  "statusLaunchConfiguration (snd (checkBuildLog env fs)) = statusLaunchConfiguration (snd fs)"
  "currentMakeConfiguration (snd (checkBuildLog env fs)) = currentMakeConfiguration (snd fs)"
  "currentTarget (snd (checkBuildLog env fs)) = currentTarget (snd fs)"
  "extensionLog (snd (checkBuildLog env fs)) = extensionLog (snd fs)"
  "makePath (snd (checkBuildLog env fs)) = makePath (snd fs)"
  by (simp_all add: checkBuildLog_def Let_def split: prod.splits)

lemma checkExtensionLog_frame [simp]:
  "currentLaunchConfiguration (snd (checkExtensionLog env fs)) = currentLaunchConfiguration (snd fs)"
  "settings (snd (checkExtensionLog env fs)) = settings (snd fs)"
  "nextRef (snd (checkExtensionLog env fs)) = nextRef (snd fs)"
  "parseRequests (snd (checkExtensionLog env fs)) = parseRequests (snd fs)"
  "statusLaunchConfiguration (snd (checkExtensionLog env fs)) = statusLaunchConfiguration (snd fs)"
  "currentMakeConfiguration (snd (checkExtensionLog env fs)) = currentMakeConfiguration (snd fs)"
  "currentTarget (snd (checkExtensionLog env fs)) = currentTarget (snd fs)"
  "buildLog (snd (checkExtensionLog env fs)) = buildLog (snd fs)"
  "makePath (snd (checkExtensionLog env fs)) = makePath (snd fs)"
  "fst (checkExtensionLog env fs) = fst fs"
  by (simp_all add: checkExtensionLog_def Let_def split: prod.splits)

lemma checkMakePath_frame [simp]:
  "currentLaunchConfiguration (snd (checkMakePath fs)) = currentLaunchConfiguration (snd fs)"
  "settings (snd (checkMakePath fs)) = settings (snd fs)"
  "nextRef (snd (checkMakePath fs)) = nextRef (snd fs)"
  "parseRequests (snd (checkMakePath fs)) = parseRequests (snd fs)"
  "statusLaunchConfiguration (snd (checkMakePath fs)) = statusLaunchConfiguration (snd fs)"
  "currentMakeConfiguration (snd (checkMakePath fs)) = currentMakeConfiguration (snd fs)"
  "currentTarget (snd (checkMakePath fs)) = currentTarget (snd fs)"
  "buildLog (snd (checkMakePath fs)) = buildLog (snd fs)"
  "extensionLog (snd (checkMakePath fs)) = extensionLog (snd fs)"
  by (simp_all add: checkMakePath_def Let_def split: prod.splits)

section \<open>What the read functions store\<close>

lemma readCurrentMakeConfiguration_value:
  "currentMakeConfiguration (readCurrentMakeConfiguration s) =
     (if truthy (Makefile_buildConfiguration (settings s))
      then the (Makefile_buildConfiguration (settings s)) else ''Default'')"
  by (simp add: readCurrentMakeConfiguration_def Let_def)

lemma readCurrentTarget_value:
  "currentTarget (readCurrentTarget s) =
     (if truthy (Makefile_buildTarget (settings s))
      then Makefile_buildTarget (settings s) else Some [])"
  by (simp add: readCurrentTarget_def Let_def)

lemma readMakePath_value: "makePath (readMakePath s) = Makefile_makePath (settings s)"
  by (simp add: readMakePath_def Let_def)

lemma readBuildLog_value:
  "buildLog (readBuildLog env s) =
     (if truthy (Makefile_buildLog (settings s)) \<and> \<not> isAbsolute (the (Makefile_buildLog (settings s)))
      then Some (path_join [js_or (rootPath env) [], the (Makefile_buildLog (settings s))])
      else Makefile_buildLog (settings s))"
  by (simp add: readBuildLog_def Let_def)

lemma initFromSettings_values:
  "currentMakeConfiguration (initFromSettings env s) =
     (if truthy (Makefile_buildConfiguration (settings s))
      then the (Makefile_buildConfiguration (settings s)) else ''Default'')"
  "currentTarget (initFromSettings env s) =
     (if truthy (Makefile_buildTarget (settings s))
      then Makefile_buildTarget (settings s) else Some [])"
  "makePath (initFromSettings env s) = Makefile_makePath (settings s)"
  "buildLog (initFromSettings env s) =
     (if truthy (Makefile_buildLog (settings s)) \<and> \<not> isAbsolute (the (Makefile_buildLog (settings s)))
      then Some (path_join [js_or (rootPath env) [], the (Makefile_buildLog (settings s))])
      else Makefile_buildLog (settings s))"
  "settings (initFromSettings env s) = settings s"
  "ignoreSettingsChanged (initFromSettings env s) = ignoreSettingsChanged s"
  "parseRequests (initFromSettings env s) = parseRequests s"
  by (simp_all add: initFromSettings_def readCurrentMakeConfiguration_value
        readCurrentTarget_value readMakePath_value readBuildLog_value)

section \<open>Command resolution\<close>

text \<open>
  The command name and the arguments that \<open>getCommandForConfiguration\<close> leaves in the
  module's variables, whatever it logs on the way.
\<close>

lemma configurationCommandName_getCommand:
  "configurationCommandName (getCommandForConfiguration env configuration s) =
     (let recordCommandName =
            (case findConfiguration configuration (makeConfigurations s) of
               None \<Rightarrow> None | Some k \<Rightarrow> commandName k);
          fromRecord = (if truthy recordCommandName
                        then Some (path_parse (the recordCommandName)) else None);
          fromSettings = (if truthy (makePath s)
                          then Some (path_parse (the (makePath s))) else None)
      in path_join
           [js_or (map_option pp_dir fromRecord) (js_or (map_option pp_dir fromSettings) []),
            js_or (map_option pp_name fromRecord)
              (js_or (map_option pp_name fromSettings) ''make'')])"
  by (simp add: getCommandForConfiguration_def Let_def)

lemma configurationCommandArgs_getCommand:
  "configurationCommandArgs (getCommandForConfiguration env configuration s) =
     (case findConfiguration configuration (makeConfigurations s) of
        None \<Rightarrow> []
      | Some k \<Rightarrow> (case commandArgs k of None \<Rightarrow> [] | Some a \<Rightarrow> a))"
  by (simp add: getCommandForConfiguration_def Let_def)

text \<open>
  Claim C3. The command is resolved from two sources: the command name of the record
  that has the configuration's name, and the make path of the settings, each taken apart
  by \<open>path.parse\<close>. The directory of the result is the \<open>dir\<close> part of the record's command
  name if that is not empty, and the \<open>dir\<close> part of the make path otherwise; its file name
  is, independently, the \<open>name\<close> part of the record's command name if that is not empty,
  else the \<open>name\<close> part of the make path, else \<open>make\<close>; the two are joined, and the
  arguments are the record's. The theorem gives the result for every combination of the
  sources: both present, the record's command name alone, the make path alone (no record
  of that name, or a record without a command name), and neither. For the record
  \<open>{name: "A", commandName: "nmake", commandArgs: ["/f", "Foo"]}\<close> and the make path
  \<open>/usr/bin/make\<close> the result is \<open>/usr/bin/nmake\<close> with the arguments \<open>["/f", "Foo"]\<close>.

  The two parts are those of \<open>path.parse\<close>, which are not the directory and the base name
  of a tool: \<open>name\<close> is the base name without its extension, so that the command
  \<open>tools/build.sh\<close> is resolved to \<open>tools/build\<close>; and a make path that names a directory,
  \<open>/usr/bin/\<close>, is taken apart into the directory \<open>/usr\<close> and the name \<open>bin\<close>, so that
  the command \<open>nmake\<close> is resolved to \<open>/usr/nmake\<close>.
\<close>

theorem command_resolved_from_parsed_parts:
  "(findConfiguration configuration (makeConfigurations s) = Some k \<and> commandName k = Some c
      \<and> c \<noteq> [] \<and> makePath s = Some m \<and> m \<noteq> [] \<longrightarrow>
      configurationCommandName (getCommandForConfiguration env configuration s) =
        path_join [if pp_dir (path_parse c) \<noteq> [] then pp_dir (path_parse c)
                   else pp_dir (path_parse m),
                   if pp_name (path_parse c) \<noteq> [] then pp_name (path_parse c)
                   else if pp_name (path_parse m) \<noteq> [] then pp_name (path_parse m)
                   else ''make''])
   \<and> (findConfiguration configuration (makeConfigurations s) = Some k \<and> commandName k = Some c
      \<and> c \<noteq> [] \<and> \<not> truthy (makePath s) \<longrightarrow>
      configurationCommandName (getCommandForConfiguration env configuration s) =
        path_join [pp_dir (path_parse c),
                   if pp_name (path_parse c) \<noteq> [] then pp_name (path_parse c) else ''make''])
   \<and> ((findConfiguration configuration (makeConfigurations s) = None
        \<or> findConfiguration configuration (makeConfigurations s) = Some k \<and> \<not> truthy (commandName k))
      \<and> makePath s = Some m \<and> m \<noteq> [] \<longrightarrow>
      configurationCommandName (getCommandForConfiguration env configuration s) =
        path_join [pp_dir (path_parse m),
                   if pp_name (path_parse m) \<noteq> [] then pp_name (path_parse m) else ''make''])
   \<and> ((findConfiguration configuration (makeConfigurations s) = None
        \<or> findConfiguration configuration (makeConfigurations s) = Some k \<and> \<not> truthy (commandName k))
      \<and> \<not> truthy (makePath s) \<longrightarrow>
      configurationCommandName (getCommandForConfiguration env configuration s) = ''make'')
   \<and> configurationCommandArgs (getCommandForConfiguration env configuration s) =
        (case findConfiguration configuration (makeConfigurations s) of
           None \<Rightarrow> []
         | Some r \<Rightarrow> (case commandArgs r of None \<Rightarrow> [] | Some a \<Rightarrow> a))"
proof (intro conjI impI)
  assume "findConfiguration configuration (makeConfigurations s) = Some k \<and> commandName k = Some c
      \<and> c \<noteq> [] \<and> makePath s = Some m \<and> m \<noteq> []"
  then show "configurationCommandName (getCommandForConfiguration env configuration s) =
        path_join [if pp_dir (path_parse c) \<noteq> [] then pp_dir (path_parse c)
                   else pp_dir (path_parse m),
                   if pp_name (path_parse c) \<noteq> [] then pp_name (path_parse c)
                   else if pp_name (path_parse m) \<noteq> [] then pp_name (path_parse m)
                   else ''make'']"
    by (simp add: configurationCommandName_getCommand truthy_def js_or_def)
next
  assume "findConfiguration configuration (makeConfigurations s) = Some k \<and> commandName k = Some c
      \<and> c \<noteq> [] \<and> \<not> truthy (makePath s)"
  then show "configurationCommandName (getCommandForConfiguration env configuration s) =
        path_join [pp_dir (path_parse c),
                   if pp_name (path_parse c) \<noteq> [] then pp_name (path_parse c) else ''make'']"
    by (simp add: configurationCommandName_getCommand truthy_def js_or_def)
next
  assume "(findConfiguration configuration (makeConfigurations s) = None
        \<or> findConfiguration configuration (makeConfigurations s) = Some k \<and> \<not> truthy (commandName k))
      \<and> makePath s = Some m \<and> m \<noteq> []"
  then show "configurationCommandName (getCommandForConfiguration env configuration s) =
        path_join [pp_dir (path_parse m),
                   if pp_name (path_parse m) \<noteq> [] then pp_name (path_parse m) else ''make'']"
    by (auto simp add: configurationCommandName_getCommand truthy_def js_or_def)
next
  assume "(findConfiguration configuration (makeConfigurations s) = None
        \<or> findConfiguration configuration (makeConfigurations s) = Some k \<and> \<not> truthy (commandName k))
      \<and> \<not> truthy (makePath s)"
  then show "configurationCommandName (getCommandForConfiguration env configuration s) = ''make''"
    by (auto simp add: configurationCommandName_getCommand truthy_def js_or_def path_join_make)
next
  show "configurationCommandArgs (getCommandForConfiguration env configuration s) =
        (case findConfiguration configuration (makeConfigurations s) of
           None \<Rightarrow> []
         | Some r \<Rightarrow> (case commandArgs r of None \<Rightarrow> [] | Some a \<Rightarrow> a))"
    by (rule configurationCommandArgs_getCommand)
qed

theorem command_resolved_from_parsed_parts_witness:
  "configurationCommandName
     (getCommandForConfiguration sampleEnv (Some ''A'')
        (moduleState\<lparr>makePath := Some ''/usr/bin/make'', makeConfigurations := [recordA]\<rparr>))
     = ''/usr/bin/nmake'' \<and>
   configurationCommandArgs
     (getCommandForConfiguration sampleEnv (Some ''A'')
        (moduleState\<lparr>makePath := Some ''/usr/bin/make'', makeConfigurations := [recordA]\<rparr>))
     = [''/f'', ''Foo''] \<and>
   pp_dir (path_parse ''tools/build.sh'') = ''tools'' \<and>
   pp_base (path_parse ''tools/build.sh'') = ''build.sh'' \<and>
   configurationCommandName
     (getCommandForConfiguration sampleEnv (Some ''S'')
        (moduleState\<lparr>makeConfigurations := [recordScript]\<rparr>))
     = ''tools/build'' \<and>
   configurationCommandName
     (getCommandForConfiguration sampleEnv (Some ''A'')
        (moduleState\<lparr>makePath := Some ''/usr/bin/'', makeConfigurations := [recordA]\<rparr>))
     = ''/usr/nmake'' \<and>
   configurationCommandName
     (getCommandForConfiguration sampleEnv (Some ''A'')
        (moduleState\<lparr>makePath := Some ''/usr/local/bin/gmake''\<rparr>))
     = ''/usr/local/bin/gmake'' \<and>
   configurationCommandName
     (getCommandForConfiguration sampleEnv (Some ''A'')
        (moduleState\<lparr>makePath := Some ''/usr/local/bin/gmake'', makeConfigurations := [recordLogs]\<rparr>))
     = ''/usr/local/bin/gmake''"
proof -
  let ?both = "moduleState\<lparr>makePath := Some ''/usr/bin/make'', makeConfigurations := [recordA]\<rparr>"
  let ?script = "moduleState\<lparr>makeConfigurations := [recordScript]\<rparr>"
  let ?dironly = "moduleState\<lparr>makePath := Some ''/usr/bin/'', makeConfigurations := [recordA]\<rparr>"
  let ?settings = "moduleState\<lparr>makePath := Some ''/usr/local/bin/gmake''\<rparr>"
  let ?noname = "moduleState\<lparr>makePath := Some ''/usr/local/bin/gmake'', makeConfigurations := [recordLogs]\<rparr>"
  have p1: "path_parse ''nmake'' =
              \<lparr>pp_root = [], pp_dir = [], pp_base = ''nmake'', pp_ext = [], pp_name = ''nmake''\<rparr>"
    by code_simp
  have p2: "path_parse ''/usr/bin/make'' =
              \<lparr>pp_root = ''/'', pp_dir = ''/usr/bin'', pp_base = ''make'', pp_ext = [],
               pp_name = ''make''\<rparr>"
    by code_simp
  have p3: "path_parse ''tools/build.sh'' =
              \<lparr>pp_root = [], pp_dir = ''tools'', pp_base = ''build.sh'', pp_ext = ''.sh'',
               pp_name = ''build''\<rparr>"
    by code_simp
  have p4: "path_parse ''/usr/bin/'' =
              \<lparr>pp_root = ''/'', pp_dir = ''/usr'', pp_base = ''bin'', pp_ext = [],
               pp_name = ''bin''\<rparr>"
    by code_simp
  have p5: "path_parse ''/usr/local/bin/gmake'' =
              \<lparr>pp_root = ''/'', pp_dir = ''/usr/local/bin'', pp_base = ''gmake'', pp_ext = [],
               pp_name = ''gmake''\<rparr>"
    by code_simp
  have j1: "path_join [''/usr/bin'', ''nmake''] = ''/usr/bin/nmake''" by code_simp
  have j2: "path_join [''tools'', ''build''] = ''tools/build''" by code_simp
  have j3: "path_join [''/usr'', ''nmake''] = ''/usr/nmake''" by code_simp
  have j4: "path_join [''/usr/local/bin'', ''gmake''] = ''/usr/local/bin/gmake''" by code_simp
  have fA: "findConfiguration (Some ''A'') (makeConfigurations ?both) = Some recordA"
    "findConfiguration (Some ''A'') (makeConfigurations ?dironly) = Some recordA"
    by (simp_all add: findConfiguration_def recordA_def)
  have fS: "findConfiguration (Some ''S'') (makeConfigurations ?script) = Some recordScript"
    by (simp add: findConfiguration_def recordScript_def)
  have fN: "findConfiguration (Some ''A'') (makeConfigurations ?settings) = None"
    by (simp add: findConfiguration_def moduleState_def)
  have fL: "findConfiguration (Some ''A'') (makeConfigurations ?noname) = Some recordLogs"
    by (simp add: findConfiguration_def recordLogs_def)
  have cA: "commandName recordA = Some ''nmake''" by (simp add: recordA_def)
  have cS: "commandName recordScript = Some ''tools/build.sh''" by (simp add: recordScript_def)
  have cL: "\<not> truthy (commandName recordLogs)" by (simp add: recordLogs_def truthy_def)
  have mS: "\<not> truthy (makePath ?script)" by (simp add: moduleState_def truthy_def)
  from command_resolved_from_parsed_parts
         [where configuration = "Some ''A''" and s = ?both and k = recordA and c = "''nmake''"
            and m = "''/usr/bin/make''" and env = sampleEnv] fA(1) cA
  have 1: "configurationCommandName (getCommandForConfiguration sampleEnv (Some ''A'') ?both)
             = ''/usr/bin/nmake''"
    and 2: "configurationCommandArgs (getCommandForConfiguration sampleEnv (Some ''A'') ?both)
             = [''/f'', ''Foo'']"
    by (simp_all add: p1 p2 j1 recordA_def)
  from command_resolved_from_parsed_parts
         [where configuration = "Some ''S''" and s = ?script and k = recordScript
            and c = "''tools/build.sh''" and env = sampleEnv] fS cS mS
  have 3: "configurationCommandName (getCommandForConfiguration sampleEnv (Some ''S'') ?script)
             = ''tools/build''"
    by (simp add: p3 j2)
  from command_resolved_from_parsed_parts
         [where configuration = "Some ''A''" and s = ?dironly and k = recordA and c = "''nmake''"
            and m = "''/usr/bin/''" and env = sampleEnv] fA(2) cA
  have 4: "configurationCommandName (getCommandForConfiguration sampleEnv (Some ''A'') ?dironly)
             = ''/usr/nmake''"
    by (simp add: p1 p4 j3)
  from command_resolved_from_parsed_parts
         [where configuration = "Some ''A''" and s = ?settings
            and m = "''/usr/local/bin/gmake''" and env = sampleEnv] fN
  have 5: "configurationCommandName (getCommandForConfiguration sampleEnv (Some ''A'') ?settings)
             = ''/usr/local/bin/gmake''"
    by (simp add: p5 j4)
  from command_resolved_from_parsed_parts
         [where configuration = "Some ''A''" and s = ?noname and k = recordLogs
            and m = "''/usr/local/bin/gmake''" and env = sampleEnv] fL cL
  have 6: "configurationCommandName (getCommandForConfiguration sampleEnv (Some ''A'') ?noname)
             = ''/usr/local/bin/gmake''"
    by (simp add: p5 j4)
  have 7: "pp_dir (path_parse ''tools/build.sh'') = ''tools''"
    "pp_base (path_parse ''tools/build.sh'') = ''build.sh''"
    by (simp_all add: p3)
  from 1 2 3 4 5 6 7 show ?thesis by blast
qed

text \<open>
  Claim C4. When no record has the configuration's name and the make path is undefined
  (or the empty string), the resolved command name is \<open>make\<close> and the argument list is
  empty; and whatever the records, the make path and the configuration asked for, the
  resolved command name is not the empty string.
\<close>

theorem default_command_is_make:
  "(findConfiguration configuration (makeConfigurations s) = None \<and> \<not> truthy (makePath s) \<longrightarrow>
      configurationCommandName (getCommandForConfiguration env configuration s) = ''make'' \<and>
      configurationCommandArgs (getCommandForConfiguration env configuration s) = []) \<and>
   configurationCommandName (getCommandForConfiguration env configuration s) \<noteq> []"
proof (intro conjI impI)
  assume a: "findConfiguration configuration (makeConfigurations s) = None \<and> \<not> truthy (makePath s)"
  then show "configurationCommandName (getCommandForConfiguration env configuration s) = ''make''"
    by (simp add: configurationCommandName_getCommand truthy_def js_or_def path_join_make)
  from a show "configurationCommandArgs (getCommandForConfiguration env configuration s) = []"
    by (simp add: configurationCommandArgs_getCommand)
next
  show "configurationCommandName (getCommandForConfiguration env configuration s) \<noteq> []"
    by (simp add: configurationCommandName_getCommand Let_def path_join_nonempty)
qed

theorem default_command_is_make_witness:
  "findConfiguration (Some ''Release'') (makeConfigurations moduleState) = None \<and>
   makePath moduleState = None \<and>
   configurationCommandName (getCommandForConfiguration sampleEnv (Some ''Release'') moduleState)
     = ''make'' \<and>
   configurationCommandArgs (getCommandForConfiguration sampleEnv (Some ''Release'') moduleState)
     = []"
proof -
  have h: "findConfiguration (Some ''Release'') (makeConfigurations moduleState) = None"
    "makePath moduleState = None" "\<not> truthy (makePath moduleState)"
    by (simp_all add: findConfiguration_def moduleState_def truthy_def)
  from default_command_is_make [of "Some ''Release''" moduleState sampleEnv] h
  show ?thesis by blast
qed

section \<open>Build-log resolution\<close>

lemma configurationBuildLog_getBuildLog:
  "configurationBuildLog (getBuildLogForConfiguration env configuration s) =
     (let recordBuildLog =
            (case findConfiguration configuration (makeConfigurations s) of
               None \<Rightarrow> None | Some k \<Rightarrow> cfgBuildLog k)
      in if truthy recordBuildLog then
           (if isAbsolute (the recordBuildLog) then recordBuildLog
            else Some (path_join [js_or (rootPath env) [], the recordBuildLog]))
         else buildLog s)"
  by (simp add: getBuildLogForConfiguration_def Let_def)

text \<open>
  Claim C7. The build log of the configuration's record, when it has one, is the
  effective build log, whatever the build log of the settings is: as it stands when it
  is absolute, joined against the root path when it is relative, and the result is then
  absolute when the root is. When there is no such record, or the record has no build
  log, the effective build log is the one read from the settings; when that one is
  undefined too, the effective build log is undefined. A record's \<open>logs/build.log\<close>
  under the root \<open>/proj\<close> gives \<open>/proj/logs/build.log\<close>.
\<close>

theorem build_log_precedence:
  "(findConfiguration configuration (makeConfigurations s) = Some k \<and> cfgBuildLog k = Some b
      \<and> b \<noteq> [] \<longrightarrow>
      configurationBuildLog (getBuildLogForConfiguration env configuration s) =
        Some (if isAbsolute b then b else path_join [js_or (rootPath env) [], b])) \<and>
   (findConfiguration configuration (makeConfigurations s) = Some k \<and> cfgBuildLog k = Some b
      \<and> b \<noteq> [] \<and> \<not> isAbsolute b \<and> rootPath env = Some r \<and> isAbsolute r \<longrightarrow>
      configurationBuildLog (getBuildLogForConfiguration env configuration s)
        = Some (path_join [r, b])
      \<and> isAbsolute (path_join [r, b])) \<and>
   (findConfiguration configuration (makeConfigurations s) = None
      \<or> (findConfiguration configuration (makeConfigurations s) = Some k
          \<and> \<not> truthy (cfgBuildLog k)) \<longrightarrow>
      configurationBuildLog (getBuildLogForConfiguration env configuration s) = buildLog s) \<and>
   ((findConfiguration configuration (makeConfigurations s) = None
      \<or> (findConfiguration configuration (makeConfigurations s) = Some k
          \<and> \<not> truthy (cfgBuildLog k)))
      \<and> buildLog s = None \<longrightarrow>
      configurationBuildLog (getBuildLogForConfiguration env configuration s) = None)"
proof -
  let ?res = "configurationBuildLog (getBuildLogForConfiguration env configuration s)"
  let ?found = "findConfiguration configuration (makeConfigurations s)"
  have 1: "?res = Some (if isAbsolute b then b else path_join [js_or (rootPath env) [], b])"
    if "?found = Some k \<and> cfgBuildLog k = Some b \<and> b \<noteq> []"
    using that by (simp add: configurationBuildLog_getBuildLog truthy_def)
  have 2: "?res = Some (path_join [r, b]) \<and> isAbsolute (path_join [r, b])"
    if a: "?found = Some k \<and> cfgBuildLog k = Some b \<and> b \<noteq> [] \<and> \<not> isAbsolute b
           \<and> rootPath env = Some r \<and> isAbsolute r"
  proof -
    from a have "r \<noteq> []" by (auto simp: isAbsolute_def)
    with a have "js_or (rootPath env) [] = r" by (simp add: js_or_def)
    with a 1 show ?thesis by (simp add: isAbsolute_path_join)
  qed
  have 3: "?res = buildLog s"
    if "?found = None \<or> (?found = Some k \<and> \<not> truthy (cfgBuildLog k))"
    using that by (auto simp add: configurationBuildLog_getBuildLog truthy_def)
  from 1 2 3 show ?thesis by simp
qed

theorem build_log_precedence_witness:
  "configurationBuildLog
     (getBuildLogForConfiguration sampleEnv (Some ''A'')
        (moduleState\<lparr>buildLog := Some ''/var/global.log'', makeConfigurations := [recordLogs]\<rparr>))
     = Some ''/proj/logs/build.log'' \<and>
   configurationBuildLog
     (getBuildLogForConfiguration sampleEnv (Some ''B'')
        (moduleState\<lparr>buildLog := Some ''/var/global.log'', makeConfigurations := [recordLogs]\<rparr>))
     = Some ''/var/global.log'' \<and>
   configurationBuildLog (getBuildLogForConfiguration sampleEnv (Some ''A'') moduleState) = None"
proof -
  let ?s = "moduleState\<lparr>buildLog := Some ''/var/global.log'', makeConfigurations := [recordLogs]\<rparr>"
  have f: "findConfiguration (Some ''A'') (makeConfigurations ?s) = Some recordLogs
           \<and> cfgBuildLog recordLogs = Some ''logs/build.log'' \<and> ''logs/build.log'' \<noteq> []
           \<and> \<not> isAbsolute ''logs/build.log'' \<and> rootPath sampleEnv = Some ''/proj''
           \<and> isAbsolute ''/proj''"
    by (simp add: findConfiguration_def recordLogs_def isAbsolute_def sampleEnv_def)
  have j: "path_join [''/proj'', ''logs/build.log''] = ''/proj/logs/build.log''" by code_simp
  have g: "findConfiguration (Some ''B'') (makeConfigurations ?s) = None"
    by (simp add: findConfiguration_def recordLogs_def)
  have h: "findConfiguration (Some ''A'') (makeConfigurations moduleState) = None
           \<and> buildLog moduleState = None"
    by (simp add: findConfiguration_def moduleState_def)
  from build_log_precedence
         [of "Some ''A''" ?s recordLogs "''logs/build.log''" sampleEnv "''/proj''"] f
  have 1: "configurationBuildLog (getBuildLogForConfiguration sampleEnv (Some ''A'') ?s)
             = Some (path_join [''/proj'', ''logs/build.log''])"
    by blast
  from build_log_precedence
         [of "Some ''B''" ?s recordLogs "''logs/build.log''" sampleEnv "''/proj''"] g
  have 2: "configurationBuildLog (getBuildLogForConfiguration sampleEnv (Some ''B'') ?s)
             = buildLog ?s"
    by blast
  from build_log_precedence
         [of "Some ''A''" moduleState recordLogs "''logs/build.log''" sampleEnv "''/proj''"] h
  have 3: "configurationBuildLog (getBuildLogForConfiguration sampleEnv (Some ''A'') moduleState)
             = None"
    by blast
  from 1 2 3 show ?thesis by (simp add: j)
qed

section \<open>Loading the configuration file\<close>

text \<open>
  Claim C8. \<open>readMakeConfigurations\<close> on a missing file logs one line, raises no error
  message and leaves the configurations in memory as they were: they are empty only if
  they were empty before. On a file whose content \<open>JSON.parse\<close> rejects, the
  configurations in memory are kept and the error message is shown. After a load of the
  record \<open>A\<close>, a second load with the file gone still has the record \<open>A\<close> in memory.
\<close>

theorem load_keeps_previous_configurations:
  "(\<not> checkFileExistsSync env (configurationsJsonPath env) \<longrightarrow>
      makeConfigurations (readMakeConfigurations env s) = makeConfigurations s \<and>
      errorMessages (readMakeConfigurations env s) = errorMessages s \<and>
      logged (readMakeConfigurations env s) =
        logged s @ [''Configurations file /.vscode/make_configurations.json not found'']) \<and>
   (fileSystem env (configurationsJsonPath env) = Some content \<and> jsonParse env content = None \<longrightarrow>
      makeConfigurations (readMakeConfigurations env s) = makeConfigurations s \<and>
      errorMessages (readMakeConfigurations env s) =
        errorMessages s @ [''Failed to parse make_configurations.json''])"
  by (simp add: readMakeConfigurations_def checkFileExistsSync_def logger_message_def
        showErrorMessage_def Let_def)

theorem load_keeps_previous_configurations_witness:
  "makeConfigurations (readMakeConfigurations envWithConfigurations moduleState) = [recordA] \<and>
   \<not> checkFileExistsSync sampleEnv (configurationsJsonPath sampleEnv) \<and>
   makeConfigurations
     (readMakeConfigurations sampleEnv (readMakeConfigurations envWithConfigurations moduleState))
     = [recordA] \<and>
   errorMessages
     (readMakeConfigurations sampleEnv (readMakeConfigurations envWithConfigurations moduleState))
     = [] \<and>
   makeConfigurations
     (readMakeConfigurations envWithBrokenConfigurations
        (readMakeConfigurations envWithConfigurations moduleState))
     = [recordA] \<and>
   errorMessages
     (readMakeConfigurations envWithBrokenConfigurations
        (readMakeConfigurations envWithConfigurations moduleState))
     = [''Failed to parse make_configurations.json'']"
proof -
  let ?s = "readMakeConfigurations envWithConfigurations moduleState"
  have p: "configurationsJsonPath sampleEnv = ''/proj/.vscode/make_configurations.json''"
    "configurationsJsonPath envWithConfigurations = ''/proj/.vscode/make_configurations.json''"
    "configurationsJsonPath envWithBrokenConfigurations = ''/proj/.vscode/make_configurations.json''"
    by (simp_all add: configurationsJsonPath_def sampleEnv_def envWithConfigurations_def
          envWithBrokenConfigurations_def js_string_def)
  have f: "fileSystem envWithConfigurations ''/proj/.vscode/make_configurations.json''
             = Some configurationsText"
    "jsonParse envWithConfigurations configurationsText = Some [recordA]"
    by (simp_all add: envWithConfigurations_def)
  have l: "makeConfigurations ?s = [recordA]" "errorMessages ?s = []"
    by (simp_all add: readMakeConfigurations_def p checkFileExistsSync_def f
          logger_message_def moduleState_def)
  have m: "\<not> checkFileExistsSync sampleEnv (configurationsJsonPath sampleEnv)"
    by (simp add: checkFileExistsSync_def sampleEnv_def)
  have b0: "fileSystem envWithBrokenConfigurations ''/proj/.vscode/make_configurations.json''
              = Some ''[{''"
    "jsonParse envWithBrokenConfigurations ''[{'' = None"
    by (simp_all add: envWithBrokenConfigurations_def sampleEnv_def)
  have b: "fileSystem envWithBrokenConfigurations (configurationsJsonPath envWithBrokenConfigurations)
             = Some ''[{''
           \<and> jsonParse envWithBrokenConfigurations ''[{'' = None"
    by (simp only: p b0)
  from load_keeps_previous_configurations [of sampleEnv ?s] m
  have 1: "makeConfigurations (readMakeConfigurations sampleEnv ?s) = makeConfigurations ?s"
    and 2: "errorMessages (readMakeConfigurations sampleEnv ?s) = errorMessages ?s"
    by blast+
  from load_keeps_previous_configurations [of envWithBrokenConfigurations ?s "''[{''"] b
  have 3: "makeConfigurations (readMakeConfigurations envWithBrokenConfigurations ?s)
             = makeConfigurations ?s"
    and 4: "errorMessages (readMakeConfigurations envWithBrokenConfigurations ?s)
             = errorMessages ?s @ [''Failed to parse make_configurations.json'']"
    by blast+
  from l m 1 2 3 4 show ?thesis by simp
qed

section \<open>Targets from a build log\<close>

text \<open>
  Claim C6. When the effective build log names a file with a non-empty content,
  \<open>parseTargetsFromBuildLog\<close> returns what \<open>parser.parseTargets\<close> gives for that content,
  sorted, and \<open>setNewTarget\<close> shows the selection prompt with that list instead of
  spawning a process. The list is sorted and nothing more: it has as many entries as
  the parser gave and is free of duplicates only if the parser's list is, so the target
  lines \<open>all\<close>, \<open>clean\<close>, \<open>clean\<close> come out as \<open>all\<close>, \<open>clean\<close>, \<open>clean\<close>.
\<close>

theorem build_log_targets_sorted_with_duplicates:
  assumes "configurationBuildLog s = Some p" and "p \<noteq> []"
    and "fileSystem env p = Some content" and "content \<noteq> []"
  shows "fst (parseTargetsFromBuildLog env s) = Some (sort_js (parseTargets env content))
     \<and> fst (setNewTarget env s) = SelectTarget (sort_js (parseTargets env content))
     \<and> sorted (sort_js (parseTargets env content))
     \<and> length (sort_js (parseTargets env content)) = length (parseTargets env content)
     \<and> distinct (sort_js (parseTargets env content)) = distinct (parseTargets env content)"
  using assms
  by (simp add: parseTargetsFromBuildLog_def setNewTarget_def truthy_def readFile_def
        sort_js_def Let_def)

theorem build_log_targets_sorted_with_duplicates_witness:
  "fst (parseTargetsFromBuildLog envWithBuildLog
          (moduleState\<lparr>configurationBuildLog := Some ''/proj/build.log''\<rparr>))
     = Some [''all'', ''clean'', ''clean''] \<and>
   fst (setNewTarget envWithBuildLog
          (moduleState\<lparr>configurationBuildLog := Some ''/proj/build.log''\<rparr>))
     = SelectTarget [''all'', ''clean'', ''clean'']"
proof -
  let ?s = "moduleState\<lparr>configurationBuildLog := Some ''/proj/build.log''\<rparr>"
  have a: "configurationBuildLog ?s = Some ''/proj/build.log''" by simp
  have b: "fileSystem envWithBuildLog ''/proj/build.log'' = Some ''all: clean: clean:''"
    by (simp add: envWithBuildLog_def)
  have c: "parseTargets envWithBuildLog ''all: clean: clean:'' = [''all'', ''clean'', ''clean'']"
    by (simp add: envWithBuildLog_def)
  have d: "sort_js [''all'', ''clean'', ''clean''] = [''all'', ''clean'', ''clean'']"
    by code_simp
  have n: "''/proj/build.log'' \<noteq> []" "''all: clean: clean:'' \<noteq> []" by simp_all
  from build_log_targets_sorted_with_duplicates [OF a n(1) b n(2)]
  have "fst (parseTargetsFromBuildLog envWithBuildLog ?s)
          = Some (sort_js (parseTargets envWithBuildLog ''all: clean: clean:''))"
    and "fst (setNewTarget envWithBuildLog ?s)
          = SelectTarget (sort_js (parseTargets envWithBuildLog ''all: clean: clean:''))"
    by blast+
  then show ?thesis by (simp only: c d)
qed

section \<open>The launch-configuration codec\<close>

lemma first_match_map: "first_match f (map g xs) = first_match (\<lambda>x. f (g x)) xs"
  by (induction xs) (simp_all split: option.splits)

lemma first_match_append:
  "first_match f (xs @ ys) =
     (case first_match f xs of Some y \<Rightarrow> Some y | None \<Rightarrow> first_match f ys)"
  by (induction xs) (simp_all split: option.splits)

lemma group_then_Nil: "group_then c k [] = None"
  by (simp add: group_then_def)

lemma group_then_terminator:
  "lineTerminator x \<Longrightarrow> group_then c k (x # s) = (if x = c then k [] s else None)"
  by (simp add: group_then_def split: option.splits)

lemma group_then_Cons:
  assumes "\<not> lineTerminator x"
  shows "group_then c k (x # s) =
     (case group_then c (\<lambda>g. k (x # g)) s of
        Some y \<Rightarrow> Some y
      | None \<Rightarrow> if x = c then k [] s else None)"
proof -
  let ?F = "\<lambda>(g, r). case literal c r of None \<Rightarrow> None | Some r' \<Rightarrow> k g r'"
  have m: "(\<lambda>p. ?F (case p of (m, r) \<Rightarrow> (x # m, r)))
           = (\<lambda>(g, r). case literal c r of None \<Rightarrow> None | Some r' \<Rightarrow> k (x # g) r')"
    by (simp add: fun_eq_iff split: prod.splits)
  have "group_then c k (x # s) =
          (case first_match (\<lambda>p. ?F (case p of (m, r) \<Rightarrow> (x # m, r))) (dotStar s) of
             Some y \<Rightarrow> Some y
           | None \<Rightarrow> first_match ?F [([], x # s)])"
    using assms
    by (simp only: group_then_def dotStar.simps if_False first_match_append first_match_map)
  also have "first_match ?F [([], x # s)] = (if x = c then k [] s else None)"
    by (simp split: option.splits)
  finally show ?thesis
    by (simp only: m group_then_def)
qed

lemma group_then_absent: "c \<notin> set s \<Longrightarrow> group_then c k s = None"
proof (induction s arbitrary: k)
  case Nil
  then show ?case by (simp add: group_then_Nil)
next
  case (Cons x s)
  from Cons.prems have n: "x \<noteq> c" and ns: "c \<notin> set s" by auto
  note i = Cons.IH [OF ns]
  show ?case
  proof (cases "lineTerminator x")
    case True
    then show ?thesis using n by (simp add: group_then_terminator)
  next
    case False
    then show ?thesis using n i by (simp add: group_then_Cons)
  qed
qed

lemma group_then_single:
  assumes "c \<notin> set a" and "\<forall>x \<in> set a. \<not> lineTerminator x" and "c \<notin> set rest"
  shows "group_then c k (a @ c # rest) = k a rest"
  using assms
proof (induction a arbitrary: k)
  case Nil
  show ?case
  proof (cases "lineTerminator c")
    case True
    then show ?thesis by (simp add: group_then_terminator)
  next
    case False
    then show ?thesis using Nil.prems by (simp add: group_then_Cons group_then_absent)
  qed
next
  case (Cons x a)
  then have ih: "group_then c (\<lambda>g. k (x # g)) (a @ c # rest) = k (x # a) rest"
    by simp
  from Cons.prems have n: "x \<noteq> c" and t: "\<not> lineTerminator x" by auto
  show ?case
    using n by (simp add: group_then_Cons [OF t] ih split: option.splits)
qed

lemma split_js_plain: "c \<notin> set x \<Longrightarrow> split_js x c = [x]"
  by (induction x) auto

lemma split_js_append:
  "c \<notin> set x \<Longrightarrow> split_js (x @ c # rest) c = x # split_js rest c"
  by (induction x) auto

lemma split_join:
  "xs \<noteq> [] \<Longrightarrow> \<forall>x \<in> set xs. c \<notin> set x \<Longrightarrow> split_js (join_js xs [c]) c = xs"
proof (induction xs "[c]" rule: join_js.induct)
  case 1
  then show ?case by simp
next
  case (2 x)
  then show ?case by (simp add: split_js_plain)
next
  case (3 x y ys)
  then show ?case by (simp add: split_js_append)
qed

lemma set_join_js: "set (join_js xs sep) \<subseteq> (\<Union>x \<in> set xs. set x) \<union> set sep"
  by (induction xs sep rule: join_js.induct) auto

lemma plainText_D:
  "plainText t \<Longrightarrow> CHR ''>'' \<notin> set t \<and> CHR ''('' \<notin> set t \<and> CHR '')'' \<notin> set t
     \<and> CHR '','' \<notin> set t \<and> (\<forall>x \<in> set t. \<not> lineTerminator x)"
  unfolding plainText_def by blast

lemma match_here_encoded:
  assumes "plainText a" and "plainText b"
    and j: "CHR ''>'' \<notin> set j \<and> CHR ''('' \<notin> set j \<and> CHR '')'' \<notin> set j
            \<and> (\<forall>x \<in> set j. \<not> lineTerminator x)"
  shows "match_here (a @ CHR ''>'' # (b @ CHR ''('' # (j @ CHR '')'' # []))) = Some (a, b, j)"
proof -
  note pa = plainText_D [OF assms(1)]
  note pb = plainText_D [OF assms(2)]
  have 1: "CHR ''>'' \<notin> set a" "\<forall>x \<in> set a. \<not> lineTerminator x"
    using pa by blast+
  have r1: "CHR ''>'' \<notin> set (b @ CHR ''('' # (j @ CHR '')'' # []))"
    using pb j by simp
  have 2: "CHR ''('' \<notin> set b" "\<forall>x \<in> set b. \<not> lineTerminator x"
    using pb by blast+
  have r2: "CHR ''('' \<notin> set (j @ CHR '')'' # [])"
    using j by simp
  have 3: "CHR '')'' \<notin> set j" "\<forall>x \<in> set j. \<not> lineTerminator x"
    using j by blast+
  have r3: "CHR '')'' \<notin> set []" by simp
  have "match_here (a @ CHR ''>'' # (b @ CHR ''('' # (j @ CHR '')'' # []))) =
        group_then (CHR ''('') (\<lambda>g2 r2.
         group_then (CHR '')'') (\<lambda>g3 r3. Some (a, g2, g3)) r2) (b @ CHR ''('' # (j @ CHR '')'' # []))"
    unfolding match_here_def by (rule group_then_single [OF 1 r1])
  also have "\<dots> = group_then (CHR '')'') (\<lambda>g3 r3. Some (a, b, g3)) (j @ CHR '')'' # [])"
    by (rule group_then_single [OF 2 r2])
  also have "\<dots> = Some (a, b, j)"
    by (rule group_then_single [OF 3 r3])
  finally show ?thesis .
qed

lemma joined_args_plain:
  assumes "\<forall>a \<in> set xs. plainText a"
  shows "CHR ''>'' \<notin> set (join_js xs '','') \<and> CHR ''('' \<notin> set (join_js xs '','')
         \<and> CHR '')'' \<notin> set (join_js xs '','')
         \<and> (\<forall>x \<in> set (join_js xs '',''). \<not> lineTerminator x)"
proof -
  have s: "set (join_js xs '','') \<subseteq> (\<Union>x \<in> set xs. set x) \<union> {CHR '',''}"
    using set_join_js [of xs "'',''"] by simp
  have t: "\<not> lineTerminator (CHR '','')" by (simp add: lineTerminator_def)
  have p: "CHR ''>'' \<notin> set a \<and> CHR ''('' \<notin> set a \<and> CHR '')'' \<notin> set a
           \<and> (\<forall>x \<in> set a. \<not> lineTerminator x)" if "a \<in> set xs" for a
    using plainText_D [of a] assms that by blast
  show ?thesis using s t p by fastforce
qed

lemma regexp_exec_at_head: "match_here s = Some m \<Longrightarrow> regexp_exec s = Some m"
  by (cases s) simp_all

text \<open>
  Decoding the encoded form gives the record back when the record has at least one
  argument, its working directory, the relative form of its binary and its arguments
  are plain text, and the helper that makes the path absolute undoes the one that makes
  it relative.
\<close>

lemma launch_round_trip:
  assumes "args r \<noteq> []"
    and "plainText (cwd r)"
    and "plainText (makeRelPath env (binary r) (cwd r))"
    and "\<forall>a \<in> set (args r). plainText a"
    and "makeFullPath env (makeRelPath env (binary r) (cwd r)) (cwd r) = binary r"
  shows "stringToLaunchConfiguration env (launchConfigurationToString env r) = Some r"
proof -
  let ?rel = "makeRelPath env (binary r) (cwd r)"
  let ?j = "join_js (args r) '',''"
  have e: "launchConfigurationToString env r
             = cwd r @ CHR ''>'' # (?rel @ CHR ''('' # (?j @ CHR '')'' # []))"
    by (simp add: launchConfigurationToString_def)
  have m: "regexp_exec (launchConfigurationToString env r) = Some (cwd r, ?rel, ?j)"
    unfolding e
    by (rule regexp_exec_at_head)
       (rule match_here_encoded [OF assms(2,3) joined_args_plain [OF assms(4)]])
  have "\<forall>x \<in> set (args r). CHR '','' \<notin> set x"
    using assms(4) plainText_D by blast
  then have s: "split_js ?j (CHR '','') = args r"
    using split_join [OF assms(1), of "CHR '',''"] by simp
  show ?thesis
    unfolding stringToLaunchConfiguration_def m
    by (simp add: s assms(5))
qed

lemma launch_round_trip_example:
  "stringToLaunchConfiguration sampleEnv (launchConfigurationToString sampleEnv launchTwoArgs)
     = Some launchTwoArgs"
proof -
  have a: "args launchTwoArgs \<noteq> []" by (simp add: launchTwoArgs_def)
  have r: "makeRelPath sampleEnv (binary launchTwoArgs) (cwd launchTwoArgs) = ''bin/app''"
    by code_simp
  have c: "plainText (cwd launchTwoArgs)" by code_simp
  have b: "plainText (makeRelPath sampleEnv (binary launchTwoArgs) (cwd launchTwoArgs))"
    unfolding r by code_simp
  have x: "\<forall>a \<in> set (args launchTwoArgs). plainText a" by code_simp
  have f: "makeFullPath sampleEnv
             (makeRelPath sampleEnv (binary launchTwoArgs) (cwd launchTwoArgs))
             (cwd launchTwoArgs) = binary launchTwoArgs"
    by code_simp
  show ?thesis by (rule launch_round_trip [OF a c b x f])
qed

lemma split_js_nonempty: "split_js s c \<noteq> []"
  by (cases s) (simp_all split: list.splits)

text \<open>
  Claim C1. Decoding never gives back a record with no arguments: the arguments of a
  decoded record are the result of \<open>split\<close>, which has at least one element. So for a
  record whose \<open>args\<close> is the empty sequence, decoding its encoded form does not give the
  record back, whatever the two path helpers do. The record \<open>{binary: "/proj/bin/app",
  cwd: "/proj", args: []}\<close> is encoded as \<open>/proj>bin/app()\<close> and decoded with \<open>args\<close>
  holding one empty string.
\<close>

theorem empty_args_do_not_round_trip:
  "args r = [] \<Longrightarrow>
     stringToLaunchConfiguration env (launchConfigurationToString env r) \<noteq> Some r"
proof
  assume a: "args r = []"
    and d: "stringToLaunchConfiguration env (launchConfigurationToString env r) = Some r"
  from d obtain m1 m2 m3 where "r = \<lparr>binary = makeFullPath env m2 m1, cwd = m1,
      args = split_js m3 (CHR '','')\<rparr>"
    by (auto simp add: stringToLaunchConfiguration_def split: option.splits)
  then have "args r = split_js m3 (CHR '','')" by simp
  with a show False using split_js_nonempty [of m3 "CHR '',''"] by simp
qed

theorem empty_args_do_not_round_trip_witness:
  "args launchNoArgs = [] \<and>
   launchConfigurationToString sampleEnv launchNoArgs = ''/proj>bin/app()'' \<and>
   stringToLaunchConfiguration sampleEnv ''/proj>bin/app()''
     = Some \<lparr>binary = ''/proj/bin/app'', cwd = ''/proj'', args = [[]]\<rparr> \<and>
   stringToLaunchConfiguration sampleEnv (launchConfigurationToString sampleEnv launchNoArgs)
     \<noteq> Some launchNoArgs"
proof -
  have a: "args launchNoArgs = []" by (simp add: launchNoArgs_def)
  have r: "pathRelativeTo ''/proj/bin/app'' ''/proj'' = ''bin/app''" by code_simp
  have e: "launchConfigurationToString sampleEnv launchNoArgs = ''/proj>bin/app()''"
    by (simp add: launchConfigurationToString_def launchNoArgs_def sampleEnv_def r)
  have x: "regexp_exec ''/proj>bin/app()'' = Some (''/proj'', ''bin/app'', [])" by code_simp
  have j: "joinAgainst ''bin/app'' ''/proj'' = ''/proj/bin/app''" by code_simp
  have d: "stringToLaunchConfiguration sampleEnv ''/proj>bin/app()''
     = Some \<lparr>binary = ''/proj/bin/app'', cwd = ''/proj'', args = [[]]\<rparr>"
    unfolding stringToLaunchConfiguration_def x by (simp add: sampleEnv_def j)
  from a e d empty_args_do_not_round_trip [OF a, of sampleEnv] show ?thesis by blast
qed

section \<open>The reconciliation guard\<close>

lemma deliver_suppressed:
  "ignoreSettingsChanged s \<Longrightarrow>
     ignoreSettingsChanged (deliver n s) \<and> (deliver n s)\<lparr>settings := settings s\<rparr> = s"
  by (cases n) (simp_all add: onDidSaveTextDocument_def onDidChangeConfiguration_def)

lemma deliverAll_suppressed:
  "ignoreSettingsChanged s \<Longrightarrow>
     ignoreSettingsChanged (deliverAll ns s) \<and> (deliverAll ns s)\<lparr>settings := settings s\<rparr> = s"
proof (induction ns arbitrary: s)
  case Nil
  then show ?case by simp
next
  case (Cons n ns)
  from Cons.prems have d: "ignoreSettingsChanged (deliver n s)"
    and e: "(deliver n s)\<lparr>settings := settings s\<rparr> = s"
    using deliver_suppressed by blast+
  from Cons.IH [OF d] have g: "ignoreSettingsChanged (deliverAll ns (deliver n s))"
    and f: "(deliverAll ns (deliver n s))\<lparr>settings := settings (deliver n s)\<rparr> = deliver n s"
    by blast+
  have "(deliverAll ns (deliver n s))\<lparr>settings := settings s\<rparr>
        = ((deliverAll ns (deliver n s))\<lparr>settings := settings (deliver n s)\<rparr>)
            \<lparr>settings := settings s\<rparr>"
    by simp
  also have "\<dots> = (deliver n s)\<lparr>settings := settings s\<rparr>" using f by simp
  also have "\<dots> = s" by (rule e)
  finally show ?case using g by simp
qed

text \<open>
  Claim C9. While \<open>ignoreSettingsChanged\<close> is true, no sequence of notifications, of
  saved documents and of changed settings in any order, changes anything the module
  owns: every variable, the log, the error messages, the status bar and the number of
  reparse requests are as before, and the guard is still held. Only the content of the
  settings store, which the notifications report and the module did not write, may
  differ.
\<close>

theorem suppressed_notifications_do_nothing:
  "ignoreSettingsChanged s \<Longrightarrow>
     (deliverAll ns s)\<lparr>settings := settings s\<rparr> = s
     \<and> ignoreSettingsChanged (deliverAll ns s)
     \<and> parseRequests (deliverAll ns s) = parseRequests s
     \<and> logged (deliverAll ns s) = logged s"
proof -
  assume a: "ignoreSettingsChanged s"
  from deliverAll_suppressed [OF a, of ns]
  have e: "(deliverAll ns s)\<lparr>settings := settings s\<rparr> = s"
    and g: "ignoreSettingsChanged (deliverAll ns s)" by blast+
  have "parseRequests (deliverAll ns s)
          = parseRequests ((deliverAll ns s)\<lparr>settings := settings s\<rparr>)" by simp
  then have p: "parseRequests (deliverAll ns s) = parseRequests s" by (simp only: e)
  have "logged (deliverAll ns s) = logged ((deliverAll ns s)\<lparr>settings := settings s\<rparr>)"
    by simp
  then have l: "logged (deliverAll ns s) = logged s" by (simp only: e)
  from e g p l show ?thesis by blast
qed

theorem suppressed_notifications_do_nothing_witness:
  "ignoreSettingsChanged (stopListeningToSettingsChanged moduleState) \<and>
   (deliverAll
      [DocumentSaved sampleEnv ''/proj/.vscode/make_configurations.json'',
       ConfigurationChanged sampleEnv (emptySettings\<lparr>Makefile_buildTarget := Some ''all''\<rparr>) True]
      (stopListeningToSettingsChanged moduleState))
     \<lparr>settings := settings (stopListeningToSettingsChanged moduleState)\<rparr>
     = stopListeningToSettingsChanged moduleState \<and>
   parseRequests
     (deliverAll
        [DocumentSaved sampleEnv ''/proj/.vscode/make_configurations.json'',
         ConfigurationChanged sampleEnv (emptySettings\<lparr>Makefile_buildTarget := Some ''all''\<rparr>) True]
        (stopListeningToSettingsChanged moduleState)) = 0"
proof -
  have h: "ignoreSettingsChanged (stopListeningToSettingsChanged moduleState)"
    by (simp add: stopListeningToSettingsChanged_def)
  have z: "parseRequests (stopListeningToSettingsChanged moduleState) = 0"
    by (simp add: stopListeningToSettingsChanged_def moduleState_def)
  from suppressed_notifications_do_nothing [OF h,
         of "[DocumentSaved sampleEnv ''/proj/.vscode/make_configurations.json'',
              ConfigurationChanged sampleEnv
                (emptySettings\<lparr>Makefile_buildTarget := Some ''all''\<rparr>) True]"] h z
  show ?thesis by (simp only:)
qed

section \<open>The comparisons of the settings listener\<close>

text \<open>
  A launch configuration in memory whose object was allocated before the notification
  is never the object that \<open>get\<close> hands out: the comparison finds a difference and the
  launch configuration is read again, into a new object.
\<close>

lemma checkLaunchConfiguration_rereads:
  assumes "currentLaunchConfiguration s = Some obj" and "objectRef obj < nextRef s"
    and "Makefile_launchConfiguration (settings s) = Some c"
  shows "currentLaunchConfiguration (snd (checkLaunchConfiguration env (f, s)))
           = Some (LaunchObject (Suc (nextRef s)) c)"
    and "nextRef (snd (checkLaunchConfiguration env (f, s))) = nextRef s + 2"
    and "statusLaunchConfiguration (snd (checkLaunchConfiguration env (f, s)))
           = Some (launchConfigurationToString env c)"
  using assms
  by (simp_all add: checkLaunchConfiguration_def get_launchConfiguration_def Let_def
        readCurrentLaunchConfiguration_def logger_message_def)

lemma after_comparisons:
  "currentLaunchConfiguration (snd (settingsComparisons env s))
     = currentLaunchConfiguration (snd (checkLaunchConfiguration env (checkBuildTarget (checkBuildConfiguration (False, s)))))"
  "nextRef (snd (settingsComparisons env s))
     = nextRef (snd (checkLaunchConfiguration env (checkBuildTarget (checkBuildConfiguration (False, s)))))"
  "statusLaunchConfiguration (snd (settingsComparisons env s))
     = statusLaunchConfiguration (snd (checkLaunchConfiguration env (checkBuildTarget (checkBuildConfiguration (False, s)))))"
  by (simp_all add: settingsComparisons_def)

text \<open>
  That the object in memory was allocated before the notification is an invariant of
  the module: activation and the write of a launch configuration establish it, and
  the listeners and the other writes keep it.
\<close>

lemma launchAllocated_frame:
  "currentLaunchConfiguration s' = currentLaunchConfiguration s \<Longrightarrow> nextRef s \<le> nextRef s' \<Longrightarrow>
     launchAllocated s \<Longrightarrow> launchAllocated s'"
  by (auto simp add: launchAllocated_def split: option.splits)

lemma readCurrentLaunchConfiguration_allocated:
  "launchAllocated (readCurrentLaunchConfiguration env s)"
  by (simp add: launchAllocated_def readCurrentLaunchConfiguration_def get_launchConfiguration_def
        Let_def split: option.splits)

lemma initFromSettings_allocated: "launchAllocated (initFromSettings env s)"
  by (simp add: initFromSettings_def readCurrentLaunchConfiguration_allocated)

lemma setLaunchConfigurationByName_allocated:
  "launchAllocated (setLaunchConfigurationByName env l s)"
  by (simp add: launchAllocated_def setLaunchConfigurationByName_def Let_def logger_message_def
        split: option.splits)

lemma setTargetByName_allocated: "launchAllocated s \<Longrightarrow> launchAllocated (setTargetByName t s)"
  by (rule launchAllocated_frame [of _ s]) (simp_all add: setTargetByName_def Let_def)

lemma setConfigurationByName_allocated:
  "launchAllocated s \<Longrightarrow> launchAllocated (setConfigurationByName env n s)"
  by (rule launchAllocated_frame [of _ s])
     (simp_all add: setConfigurationByName_def setCurrentMakeConfiguration_def Let_def)

lemma checkLaunchConfiguration_allocated:
  assumes "launchAllocated (snd p)"
  shows "launchAllocated (snd (checkLaunchConfiguration env p))"
proof -
  obtain f s where p: "p = (f, s)" by (cases p)
  obtain v s1 where g: "get_launchConfiguration s = (v, s1)"
    by (cases "get_launchConfiguration s")
  have k: "currentLaunchConfiguration s1 = currentLaunchConfiguration s" "nextRef s \<le> nextRef s1"
    using g by (auto simp add: get_launchConfiguration_def split: option.splits)
  have 1: "launchAllocated s1"
    using assms by (intro launchAllocated_frame [OF k]) (simp add: p)
  show ?thesis
    using 1 by (simp add: p checkLaunchConfiguration_def g readCurrentLaunchConfiguration_allocated)
qed

lemma settingsComparisons_allocated:
  assumes "launchAllocated s"
  shows "launchAllocated (snd (settingsComparisons env s))"
proof -
  let ?b = "checkBuildTarget (checkBuildConfiguration (False, s))"
  let ?c = "checkLaunchConfiguration env ?b"
  have "launchAllocated (snd ?b)"
    by (rule launchAllocated_frame [OF _ _ assms]) simp_all
  then have c: "launchAllocated (snd ?c)" by (rule checkLaunchConfiguration_allocated)
  show ?thesis
    unfolding settingsComparisons_def
    by (rule launchAllocated_frame [OF _ _ c]) simp_all
qed

lemma onDidChangeConfiguration_allocated:
  assumes "launchAllocated s"
  shows "launchAllocated (onDidChangeConfiguration env a s)"
proof -
  let ?s0 = "logger_message ''Detected a change in settings'' s"
  have 0: "launchAllocated ?s0" by (rule launchAllocated_frame [OF _ _ assms]) simp_all
  obtain u s1 where us: "settingsComparisons env ?s0 = (u, s1)"
    by (cases "settingsComparisons env ?s0")
  have 1: "launchAllocated s1"
    using settingsComparisons_allocated [OF 0, of env] by (simp add: us)
  have 2: "launchAllocated
             (parseBuildOrDryRun
               (getBuildLogForConfiguration env c2
                 (getCommandForConfiguration env c1
                   (logger_message m s1))))" for c1 c2 m
    by (rule launchAllocated_frame [OF _ _ 1]) simp_all
  show ?thesis
    using assms 1 2 by (simp add: onDidChangeConfiguration_def us Let_def)
qed

lemma onDidSaveTextDocument_allocated:
  assumes "launchAllocated s"
  shows "launchAllocated (onDidSaveTextDocument env f s)"
proof -
  have "launchAllocated
          (parseBuildOrDryRun (readCurrentMakeConfigurationCommand env (logger_message m s)))" for m
    by (rule launchAllocated_frame [OF _ _ assms]) simp_all
  then show ?thesis using assms by (simp add: onDidSaveTextDocument_def)
qed

lemma deliver_allocated: "launchAllocated s \<Longrightarrow> launchAllocated (deliver n s)"
proof (cases n)
  case (DocumentSaved env f)
  assume "launchAllocated s"
  then show ?thesis by (simp add: DocumentSaved onDidSaveTextDocument_allocated)
next
  case (ConfigurationChanged env st a)
  assume a: "launchAllocated s"
  have "launchAllocated (s\<lparr>settings := st\<rparr>)"
    by (rule launchAllocated_frame [OF _ _ a]) simp_all
  then show ?thesis by (simp add: ConfigurationChanged onDidChangeConfiguration_allocated)
qed

lemma deliverAll_allocated: "launchAllocated s \<Longrightarrow> launchAllocated (deliverAll ns s)"
  by (induction ns arbitrary: s) (simp_all add: deliver_allocated)

text \<open>
  Claim C10. When the launch configuration is defined both in memory and in the
  settings store, the strict comparison of the value fetched by the listener with the
  object in memory reports a difference, because the two are different objects. A
  notification that the listener processes therefore reads the launch configuration
  again: afterwards the variable holds a new object with the stored fields, the status
  bar shows its encoded form, and two objects have been fetched, one for the comparison
  and one by the read. The new object is again allocated before the next notification,
  so the same holds for the notification after it.
\<close>

theorem launch_configuration_reread_on_notification:
  assumes "workspaceFolders env" and "\<not> ignoreSettingsChanged s"
    and "currentLaunchConfiguration s = Some obj" and "objectRef obj < nextRef s"
    and "Makefile_launchConfiguration (settings s) = Some c"
  shows "strict_neq_object (fst (get_launchConfiguration s)) (currentLaunchConfiguration s)
     \<and> currentLaunchConfiguration (onDidChangeConfiguration env True s)
           = Some (LaunchObject (Suc (nextRef s)) c)
     \<and> nextRef (onDidChangeConfiguration env True s) = nextRef s + 2
     \<and> statusLaunchConfiguration (onDidChangeConfiguration env True s)
           = Some (launchConfigurationToString env c)"
proof -
  let ?s0 = "logger_message ''Detected a change in settings'' s"
  let ?p = "checkBuildTarget (checkBuildConfiguration (False, ?s0))"
  have p: "?p = (fst ?p, snd ?p)" by simp
  have a: "currentLaunchConfiguration (snd ?p) = Some obj" using assms(3) by simp
  have b: "objectRef obj < nextRef (snd ?p)" using assms(4) by simp
  have c: "Makefile_launchConfiguration (settings (snd ?p)) = Some c" using assms(5) by simp
  note r = checkLaunchConfiguration_rereads [OF a b c, of env "fst ?p"]
  have n: "nextRef (snd ?p) = nextRef s" by simp
  have 1: "strict_neq_object (fst (get_launchConfiguration s)) (currentLaunchConfiguration s)"
    using assms(3,4,5) by (cases obj) (simp add: get_launchConfiguration_def)
  obtain u s1 where us: "settingsComparisons env ?s0 = (u, s1)" by (cases "settingsComparisons env ?s0")
  have s1: "s1 = snd (settingsComparisons env ?s0)" using us by simp
  have 2: "currentLaunchConfiguration s1 = Some (LaunchObject (Suc (nextRef s)) c)"
    and 3: "nextRef s1 = nextRef s + 2"
    and 4: "statusLaunchConfiguration s1 = Some (launchConfigurationToString env c)"
    using r n by (simp_all add: s1 after_comparisons)
  show ?thesis using assms(1,2) 1 2 3 4
    by (simp add: onDidChangeConfiguration_def us Let_def)
qed

theorem launch_configuration_reread_on_notification_witness:
  "workspaceFolders sampleEnv \<and> \<not> ignoreSettingsChanged activatedWithLaunch \<and>
   currentLaunchConfiguration activatedWithLaunch = Some (LaunchObject 0 launchTwoArgs) \<and>
   nextRef activatedWithLaunch = 1 \<and>
   Makefile_launchConfiguration (settings activatedWithLaunch) = Some launchTwoArgs \<and>
   currentLaunchConfiguration (onDidChangeConfiguration sampleEnv True activatedWithLaunch)
     = Some (LaunchObject 2 launchTwoArgs) \<and>
   nextRef (onDidChangeConfiguration sampleEnv True activatedWithLaunch) = 3"
proof -
  have w: "workspaceFolders sampleEnv" by (simp add: sampleEnv_def)
  have g: "\<not> ignoreSettingsChanged activatedWithLaunch" by code_simp
  have c: "currentLaunchConfiguration activatedWithLaunch = Some (LaunchObject 0 launchTwoArgs)"
    by code_simp
  have n: "nextRef activatedWithLaunch = 1" by code_simp
  have r: "objectRef (LaunchObject 0 launchTwoArgs) < nextRef activatedWithLaunch"
    by (simp add: n)
  have st: "Makefile_launchConfiguration (settings activatedWithLaunch) = Some launchTwoArgs"
    by code_simp
  from launch_configuration_reread_on_notification [OF w g c r st] w g c n st
  show ?thesis by simp
qed

section \<open>The reparse flag\<close>

lemma fst_checkBuildConfiguration:
  "fst (checkBuildConfiguration p) =
     (fst p \<or> (Makefile_buildConfiguration (settings (snd p)) \<noteq> Some (currentMakeConfiguration (snd p))
            \<and> (Makefile_buildConfiguration (settings (snd p)) \<noteq> None
                \<or> currentMakeConfiguration (snd p) \<noteq> ''Default'')))"
  by (cases p) (simp add: checkBuildConfiguration_def Let_def)

lemma fst_checkBuildTarget:
  "fst (checkBuildTarget p) =
     (fst p \<or> (Makefile_buildTarget (settings (snd p)) \<noteq> currentTarget (snd p)
            \<and> (Makefile_buildTarget (settings (snd p)) \<noteq> None
                \<or> currentTarget (snd p) \<noteq> Some [])))"
  by (cases p) (simp add: checkBuildTarget_def Let_def)

lemma fst_checkBuildLog:
  "fst (checkBuildLog env p) = (fst p \<or> Makefile_buildLog (settings (snd p)) \<noteq> buildLog (snd p))"
  by (cases p) (simp add: checkBuildLog_def Let_def)

lemma fst_checkMakePath:
  "fst (checkMakePath p) = (fst p \<or> Makefile_makePath (settings (snd p)) \<noteq> makePath (snd p))"
  by (cases p) (simp add: checkMakePath_def Let_def)

lemma flag_of_comparisons:
  "fst (settingsComparisons env s) =
     ((Makefile_buildConfiguration (settings s) \<noteq> Some (currentMakeConfiguration s)
        \<and> (Makefile_buildConfiguration (settings s) \<noteq> None
            \<or> currentMakeConfiguration s \<noteq> ''Default''))
      \<or> (Makefile_buildTarget (settings s) \<noteq> currentTarget s
          \<and> (Makefile_buildTarget (settings s) \<noteq> None \<or> currentTarget s \<noteq> Some []))
      \<or> Makefile_buildLog (settings s) \<noteq> buildLog s
      \<or> Makefile_makePath (settings s) \<noteq> makePath s)"
  by (simp add: settingsComparisons_def fst_checkMakePath fst_checkBuildLog
        fst_checkBuildTarget fst_checkBuildConfiguration)

lemma parseRequests_comparisons:
  "parseRequests (snd (settingsComparisons env s)) = parseRequests s"
  by (simp add: settingsComparisons_def)

lemma parseRequests_onDidChangeConfiguration:
  assumes "workspaceFolders env" and "\<not> ignoreSettingsChanged s"
  shows "parseRequests (onDidChangeConfiguration env True s) =
           parseRequests s
           + (if fst (settingsComparisons env (logger_message ''Detected a change in settings'' s))
              then 1 else 0)"
proof -
  let ?s0 = "logger_message ''Detected a change in settings'' s"
  obtain u s1 where us: "settingsComparisons env ?s0 = (u, s1)"
    by (cases "settingsComparisons env ?s0")
  have "parseRequests s1 = parseRequests (snd (settingsComparisons env ?s0))" using us by simp
  then have p: "parseRequests s1 = parseRequests s" by (simp add: parseRequests_comparisons)
  show ?thesis using assms p
    by (simp add: onDidChangeConfiguration_def us Let_def)
qed

lemma flag_when_in_sync:
  assumes "currentMakeConfiguration s = configurationOf (Makefile_buildConfiguration old)"
    and "currentTarget s = Some (targetOf (Makefile_buildTarget old))"
    and "buildLog s = Makefile_buildLog old"
    and "makePath s = Makefile_makePath old"
  shows "fst (settingsComparisons env (s\<lparr>settings := new\<rparr>)) =
           (configurationOf (Makefile_buildConfiguration new)
              \<noteq> configurationOf (Makefile_buildConfiguration old)
            \<or> targetOf (Makefile_buildTarget new) \<noteq> targetOf (Makefile_buildTarget old)
            \<or> Makefile_buildLog new \<noteq> Makefile_buildLog old
            \<or> Makefile_makePath new \<noteq> Makefile_makePath old)"
  unfolding flag_of_comparisons
  by (cases "Makefile_buildConfiguration new"; cases "Makefile_buildTarget new")
     (auto simp add: assms configurationOf_def targetOf_def)

lemma activated_in_sync:
  assumes "s = initFromSettings env (s0\<lparr>settings := old\<rparr>)"
    and "Makefile_buildConfiguration old \<noteq> Some []"
    and "\<not> truthy (Makefile_buildLog old) \<or> isAbsolute (the (Makefile_buildLog old))"
  shows "currentMakeConfiguration s = configurationOf (Makefile_buildConfiguration old)"
    and "currentTarget s = Some (targetOf (Makefile_buildTarget old))"
    and "buildLog s = Makefile_buildLog old"
    and "makePath s = Makefile_makePath old"
    and "settings s = old"
    and "ignoreSettingsChanged s = ignoreSettingsChanged s0"
proof -
  show "currentMakeConfiguration s = configurationOf (Makefile_buildConfiguration old)"
    using assms(2)
    by (cases "Makefile_buildConfiguration old")
       (simp_all add: assms(1) initFromSettings_values truthy_def configurationOf_def)
  show "currentTarget s = Some (targetOf (Makefile_buildTarget old))"
    by (cases "Makefile_buildTarget old")
       (simp_all add: assms(1) initFromSettings_values truthy_def targetOf_def)
  show "buildLog s = Makefile_buildLog old"
    using assms(3) by (auto simp add: assms(1) initFromSettings_values)
  show "makePath s = Makefile_makePath old" "settings s = old"
    "ignoreSettingsChanged s = ignoreSettingsChanged s0"
    by (simp_all add: assms(1) initFromSettings_values)
qed

lemma parseRequests_deliver:
  assumes "workspaceFolders env" and "\<not> ignoreSettingsChanged s"
  shows "parseRequests (deliver (ConfigurationChanged env new True) s) =
           parseRequests s + (if fst (settingsComparisons env (s\<lparr>settings := new\<rparr>)) then 1 else 0)"
proof -
  have g: "\<not> ignoreSettingsChanged (s\<lparr>settings := new\<rparr>)" using assms(2) by simp
  have f: "fst (settingsComparisons env
                 (logger_message ''Detected a change in settings'' (s\<lparr>settings := new\<rparr>)))
            = fst (settingsComparisons env (s\<lparr>settings := new\<rparr>))"
    by (simp add: flag_of_comparisons)
  show ?thesis
    using parseRequests_onDidChangeConfiguration [OF assms(1) g] by (simp add: f)
qed

section \<open>A relative build log\<close>

text \<open>
  The guard and the build log after the comparisons of the listener, and what
  \<open>readBuildLog\<close> stores for a relative setting under an absolute workspace root: the
  resolved path, which is not the setting.
\<close>

lemma comparison_guard_frame [simp]:
  "ignoreSettingsChanged (snd (checkBuildConfiguration p)) = ignoreSettingsChanged (snd p)"
  "ignoreSettingsChanged (snd (checkBuildTarget p)) = ignoreSettingsChanged (snd p)"
  "ignoreSettingsChanged (snd (checkLaunchConfiguration env p)) = ignoreSettingsChanged (snd p)"
  "ignoreSettingsChanged (snd (checkBuildLog env p)) = ignoreSettingsChanged (snd p)"
  "ignoreSettingsChanged (snd (checkExtensionLog env p)) = ignoreSettingsChanged (snd p)"
  "ignoreSettingsChanged (snd (checkMakePath p)) = ignoreSettingsChanged (snd p)"
  by (simp_all add: checkBuildConfiguration_def checkBuildTarget_def checkLaunchConfiguration_def
        checkBuildLog_def checkExtensionLog_def checkMakePath_def get_launchConfiguration_def
        Let_def split: prod.splits option.splits)

lemma settingsComparisons_guard:
  "ignoreSettingsChanged (snd (settingsComparisons env s)) = ignoreSettingsChanged s"
  by (simp add: settingsComparisons_def)

lemma buildLog_checkBuildLog:
  "buildLog (snd (checkBuildLog env p)) =
     (if Makefile_buildLog (settings (snd p)) \<noteq> buildLog (snd p)
      then buildLog (readBuildLog env (snd p)) else buildLog (snd p))"
  by (cases p) (simp add: checkBuildLog_def Let_def readBuildLog_value)

lemma buildLog_comparisons:
  "buildLog (snd (settingsComparisons env s)) =
     (if Makefile_buildLog (settings s) \<noteq> buildLog s
      then buildLog (readBuildLog env s) else buildLog s)"
  by (simp add: settingsComparisons_def buildLog_checkBuildLog readBuildLog_value)

lemma onDidChangeConfiguration_after:
  assumes "workspaceFolders env" and "\<not> ignoreSettingsChanged s"
  shows "buildLog (onDidChangeConfiguration env True s) =
           (if Makefile_buildLog (settings s) \<noteq> buildLog s
            then buildLog (readBuildLog env s) else buildLog s)"
    and "ignoreSettingsChanged (onDidChangeConfiguration env True s) = ignoreSettingsChanged s"
proof -
  let ?s0 = "logger_message ''Detected a change in settings'' s"
  obtain u s1 where us: "settingsComparisons env ?s0 = (u, s1)"
    by (cases "settingsComparisons env ?s0")
  have s1: "s1 = snd (settingsComparisons env ?s0)" using us by simp
  have b: "buildLog s1 =
           (if Makefile_buildLog (settings s) \<noteq> buildLog s
            then buildLog (readBuildLog env s) else buildLog s)"
    by (simp add: s1 buildLog_comparisons readBuildLog_value)
  have g: "ignoreSettingsChanged s1 = ignoreSettingsChanged s"
    by (simp add: s1 settingsComparisons_guard)
  show "buildLog (onDidChangeConfiguration env True s) =
           (if Makefile_buildLog (settings s) \<noteq> buildLog s
            then buildLog (readBuildLog env s) else buildLog s)"
    using assms b by (simp add: onDidChangeConfiguration_def us Let_def)
  show "ignoreSettingsChanged (onDidChangeConfiguration env True s) = ignoreSettingsChanged s"
    using assms g by (simp add: onDidChangeConfiguration_def us Let_def)
qed

lemma readBuildLog_relative:
  assumes "rootPath env = Some r" and "isAbsolute r"
    and "Makefile_buildLog (settings s) = Some b" and "b \<noteq> []" and "\<not> isAbsolute b"
  shows "buildLog (readBuildLog env s) = Some (path_join [r, b])"
    and "buildLog (initFromSettings env s) = Some (path_join [r, b])"
    and "buildLog (readBuildLog env s) \<noteq> Makefile_buildLog (settings s)"
proof -
  have r: "r \<noteq> []" using assms(2) by (auto simp add: isAbsolute_def)
  show 1: "buildLog (readBuildLog env s) = Some (path_join [r, b])"
    using assms r by (simp add: readBuildLog_value truthy_def js_or_def)
  show "buildLog (initFromSettings env s) = Some (path_join [r, b])"
    using assms r by (simp add: initFromSettings_values truthy_def js_or_def)
  have "isAbsolute (path_join [r, b])" using assms(2) by (rule isAbsolute_path_join)
  then have "path_join [r, b] \<noteq> b" using assms(5) by auto
  then show "buildLog (readBuildLog env s) \<noteq> Makefile_buildLog (settings s)"
    by (simp add: 1 assms(3))
qed

lemma stale_build_log_sets_flag:
  "Makefile_buildLog (settings s) \<noteq> buildLog s \<Longrightarrow> fst (settingsComparisons env s)"
  by (simp add: flag_of_comparisons)

lemma activatedRelativeLog_state:
  "buildLog activatedRelativeLog = Some (path_join [''/proj'', ''build.log''])"
  "settings activatedRelativeLog = settingsRelativeLog"
  "\<not> ignoreSettingsChanged activatedRelativeLog"
  "parseRequests activatedRelativeLog = 0"
proof -
  have r: "rootPath sampleEnv = Some ''/proj''" "isAbsolute ''/proj''"
    by (simp_all add: sampleEnv_def isAbsolute_def)
  have st: "Makefile_buildLog (settings (moduleState\<lparr>settings := settingsRelativeLog\<rparr>))
              = Some ''build.log''"
    by (simp add: settingsRelativeLog_def)
  show "buildLog activatedRelativeLog = Some (path_join [''/proj'', ''build.log''])"
    unfolding activatedRelativeLog_def
    by (rule readBuildLog_relative(2) [OF r st]) (simp_all add: isAbsolute_def)
  show "settings activatedRelativeLog = settingsRelativeLog"
    "\<not> ignoreSettingsChanged activatedRelativeLog"
    "parseRequests activatedRelativeLog = 0"
    by (simp_all add: activatedRelativeLog_def initFromSettings_values moduleState_def)
qed

text \<open>
  Claim C5. A notification that changes only the extension log, or only the launch
  configuration, should leave the reparse flag unset. The listener's test for the build
  log compares the stored setting with the variable \<open>buildLog\<close>, and \<open>readBuildLog\<close> stores
  a relative setting resolved against the workspace root. With an absolute root and a
  relative build log in the store, the test therefore finds a difference although the
  variable holds exactly what a read of the store gives: every notification that the
  listener processes sets the flag and requests a reparse, once, whatever the
  notification changed. The build log is read again to the same path and the guard is
  left as it was, so the notification after it does the same.
\<close>

theorem relative_build_log_sets_flag_on_every_notification:
  assumes "workspaceFolders env" and "\<not> ignoreSettingsChanged s"
    and "rootPath env = Some r" and "isAbsolute r"
    and "Makefile_buildLog new = Some b" and "b \<noteq> []" and "\<not> isAbsolute b"
    and "buildLog s = buildLog (readBuildLog env (s\<lparr>settings := new\<rparr>))"
  shows "fst (settingsComparisons env (s\<lparr>settings := new\<rparr>))
     \<and> parseRequests (deliver (ConfigurationChanged env new True) s) = Suc (parseRequests s)
     \<and> buildLog (deliver (ConfigurationChanged env new True) s) = buildLog s
     \<and> \<not> ignoreSettingsChanged (deliver (ConfigurationChanged env new True) s)"
proof -
  let ?s = "s\<lparr>settings := new\<rparr>"
  have st: "Makefile_buildLog (settings ?s) = Some b" using assms(5) by simp
  note rel = readBuildLog_relative [OF assms(3,4) st assms(6,7)]
  have d: "Makefile_buildLog (settings ?s) \<noteq> buildLog ?s"
    using rel(3) assms(8) by simp
  have f: "fst (settingsComparisons env ?s)" using d by (rule stale_build_log_sets_flag)
  have g: "\<not> ignoreSettingsChanged ?s" using assms(2) by simp
  have p: "parseRequests (deliver (ConfigurationChanged env new True) s) = Suc (parseRequests s)"
    using parseRequests_deliver [OF assms(1,2), of new] f by simp
  have b: "buildLog (deliver (ConfigurationChanged env new True) s) = buildLog s"
    using onDidChangeConfiguration_after(1) [OF assms(1) g] d assms(8) by simp
  have i: "\<not> ignoreSettingsChanged (deliver (ConfigurationChanged env new True) s)"
    using onDidChangeConfiguration_after(2) [OF assms(1) g] g by simp
  from f p b i show ?thesis by blast
qed

theorem relative_build_log_sets_flag_on_every_notification_witness:
  "workspaceFolders sampleEnv \<and> rootPath sampleEnv = Some ''/proj'' \<and>
   \<not> ignoreSettingsChanged activatedRelativeLog \<and>
   settings activatedRelativeLog = settingsRelativeLog \<and>
   Makefile_buildLog (settingsRelativeLog\<lparr>Makefile_extensionLog := Some ''ext.log''\<rparr>)
     = Makefile_buildLog settingsRelativeLog \<and>
   buildLog activatedRelativeLog = Some ''/proj/build.log'' \<and>
   parseRequests activatedRelativeLog = 0 \<and>
   fst (settingsComparisons sampleEnv
          (activatedRelativeLog\<lparr>settings := settingsRelativeLog\<lparr>Makefile_extensionLog := Some ''ext.log''\<rparr>\<rparr>)) \<and>
   parseRequests
     (deliver (ConfigurationChanged sampleEnv
                 (settingsRelativeLog\<lparr>Makefile_extensionLog := Some ''ext.log''\<rparr>) True)
        activatedRelativeLog) = 1 \<and>
   parseRequests
     (deliverAll
        [ConfigurationChanged sampleEnv
           (settingsRelativeLog\<lparr>Makefile_extensionLog := Some ''ext.log''\<rparr>) True,
         ConfigurationChanged sampleEnv
           (settingsRelativeLog\<lparr>Makefile_extensionLog := Some ''ext.log'',
              Makefile_launchConfiguration := Some launchTwoArgs\<rparr>) True]
        activatedRelativeLog) = 2"
proof -
  let ?n1 = "settingsRelativeLog\<lparr>Makefile_extensionLog := Some ''ext.log''\<rparr>"
  let ?n2 = "settingsRelativeLog\<lparr>Makefile_extensionLog := Some ''ext.log'',
               Makefile_launchConfiguration := Some launchTwoArgs\<rparr>"
  let ?s1 = "deliver (ConfigurationChanged sampleEnv ?n1 True) activatedRelativeLog"
  have w: "workspaceFolders sampleEnv" by (simp add: sampleEnv_def)
  have r: "rootPath sampleEnv = Some ''/proj''" by (simp add: sampleEnv_def)
  have a: "isAbsolute ''/proj''" by (simp add: isAbsolute_def)
  have j: "path_join [''/proj'', ''build.log''] = ''/proj/build.log''" by code_simp
  note act = activatedRelativeLog_state
  have b1: "Makefile_buildLog ?n1 = Some ''build.log''"
    and b2: "Makefile_buildLog ?n2 = Some ''build.log''"
    and b0: "Makefile_buildLog ?n1 = Makefile_buildLog settingsRelativeLog"
    by (simp_all add: settingsRelativeLog_def)
  have rel: "\<not> isAbsolute ''build.log''" "''build.log'' \<noteq> []" by (simp_all add: isAbsolute_def)
  have m1: "buildLog activatedRelativeLog
              = buildLog (readBuildLog sampleEnv (activatedRelativeLog\<lparr>settings := ?n1\<rparr>))"
    using readBuildLog_relative(1) [OF r a, of "activatedRelativeLog\<lparr>settings := ?n1\<rparr>" "''build.log''"]
    by (simp add: act(1) b1 rel)
  note t1 = relative_build_log_sets_flag_on_every_notification
              [OF w act(3) r a b1 rel(2) rel(1) m1]
  have m2: "buildLog ?s1 = buildLog (readBuildLog sampleEnv (?s1\<lparr>settings := ?n2\<rparr>))"
    using readBuildLog_relative(1) [OF r a, of "?s1\<lparr>settings := ?n2\<rparr>" "''build.log''"] t1
    by (simp add: act(1) b2 rel)
  have g1: "\<not> ignoreSettingsChanged ?s1" using t1 by blast
  note t2 = relative_build_log_sets_flag_on_every_notification
              [OF w g1 r a b2 rel(2) rel(1) m2]
  have 1: "fst (settingsComparisons sampleEnv (activatedRelativeLog\<lparr>settings := ?n1\<rparr>))"
    using t1 by blast
  have 2: "parseRequests ?s1 = 1" using t1 act(4) by simp
  have 3: "parseRequests (deliver (ConfigurationChanged sampleEnv ?n2 True) ?s1) = 2"
    using t2 2 by simp
  have 4: "parseRequests
     (deliverAll [ConfigurationChanged sampleEnv ?n1 True, ConfigurationChanged sampleEnv ?n2 True]
        activatedRelativeLog) = 2"
    using 3 by simp
  have 5: "buildLog activatedRelativeLog = Some ''/proj/build.log''" using act(1) j by simp
  from w r act(3) act(2) b0 5 act(4) 1 2 4 show ?thesis by blast
qed

text \<open>
  With the guard not held the listeners do act: on the activated module, a save of the
  configuration file requests a reparse, and so does a notification that sets the build
  target to \<open>all\<close>.
\<close>

lemma parseRequests_onDidSaveTextDocument:
  assumes "normalize fileName = normalize (configurationsJsonPath env)"
    and "\<not> ignoreSettingsChanged s"
  shows "parseRequests (onDidSaveTextDocument env fileName s) = Suc (parseRequests s)"
  using assms by (simp add: onDidSaveTextDocument_def)

lemma unsuppressed_notifications_act:
  "parseRequests
     (deliver (DocumentSaved sampleEnv ''/proj/.vscode/make_configurations.json'') activatedEmpty)
     = Suc (parseRequests activatedEmpty) \<and>
   parseRequests
     (deliver (ConfigurationChanged sampleEnv
                 (emptySettings\<lparr>Makefile_buildTarget := Some ''all''\<rparr>) True) activatedEmpty)
     = Suc (parseRequests activatedEmpty)"
proof -
  have e: "Makefile_buildConfiguration emptySettings \<noteq> Some []"
    "\<not> truthy (Makefile_buildLog emptySettings) \<or> isAbsolute (the (Makefile_buildLog emptySettings))"
    by (simp_all add: emptySettings_def truthy_def)
  note sync = activated_in_sync [OF activatedEmpty_def e]
  have w: "workspaceFolders sampleEnv" by (simp add: sampleEnv_def)
  have g: "\<not> ignoreSettingsChanged activatedEmpty"
    using sync(6) by (simp add: moduleState_def)
  have p: "normalize ''/proj/.vscode/make_configurations.json''
             = normalize (configurationsJsonPath sampleEnv)"
    by (simp add: configurationsJsonPath_def sampleEnv_def js_string_def)
  have f: "fst (settingsComparisons sampleEnv
                  (activatedEmpty\<lparr>settings := emptySettings\<lparr>Makefile_buildTarget := Some ''all''\<rparr>\<rparr>))"
    unfolding flag_when_in_sync [OF sync(1,2,3,4)]
    by (simp add: emptySettings_def targetOf_def)
  from parseRequests_onDidSaveTextDocument [OF p g]
       parseRequests_deliver [OF w g, of "emptySettings\<lparr>Makefile_buildTarget := Some ''all''\<rparr>"] f
  show ?thesis by simp
qed

section \<open>The module's own writes\<close>





section \<open>The log of a processed notification\<close>








section \<open>The notification of an own write\<close>











end
